theory Spec2Isabelle
  imports Complex_Main
begin

section \<open>The native graphics context\<close>

text \<open>
  Every wrapper forwards to a \<open>WebGL2RenderingContext\<close>. The native context is a
  record of the state that the wrappers read back, the answers that the driver
  gives, and the sequence \<open>calls\<close> of native calls issued so far. A wrapper
  operation takes the native context and returns it updated, so "issues a native
  call" is "appends to \<open>calls\<close>" and "leaves the native state untouched" is
  "returns the same record".

  JavaScript numbers are \<open>int\<close> for texture units, locations and enum values and
  \<open>real\<close> for colour components; \<open>NaN\<close> is outside the model. The two colour
  space properties of the native context may be \<open>undefined\<close>, which is \<open>None\<close>:
  \<open>unpackColorSpace\<close> is experimental and read through an unchecked cast, and a
  context without such a property answers \<open>undefined\<close> when it is read.
\<close>

datatype PredefinedColorSpace = display_p3 | srgb

record Color =
  c0 :: real
  c1 :: real
  c2 :: real
  c3 :: real

text \<open>The enum constants that the code passes on by name only.\<close>

datatype GLenum = ACTIVE_TEXTURE | BLEND_COLOR | LINK_STATUS | COMPILE_STATUS | ARRAY_BUFFER

datatype ShaderType = VERTEX_SHADER | FRAGMENT_SHADER

type_synonym WebGLProgram = nat
type_synonym WebGLShader = nat
type_synonym WebGLVertexArrayObject = nat
type_synonym WebGLContextAttributes = "(string \<times> bool) list"

datatype native_call =
    GL_getContext string "WebGLContextAttributes option"
  | GL_read_drawingBufferColorSpace
  | GL_write_drawingBufferColorSpace PredefinedColorSpace
  | GL_read_unpackColorSpace
  | GL_write_unpackColorSpace PredefinedColorSpace
  | GL_getParameter GLenum
  | GL_activeTexture int
  | GL_blendColor real real real real
  | GL_enableVertexAttribArray int
  | GL_disableVertexAttribArray int
  | GL_createProgram
  | GL_attachShader WebGLProgram WebGLShader
  | GL_bindAttribLocation WebGLProgram int string
  | GL_linkProgram WebGLProgram
  | GL_getProgramParameter WebGLProgram GLenum
  | GL_getProgramInfoLog WebGLProgram
  | GL_deleteProgram WebGLProgram
  | GL_createShader ShaderType
  | GL_shaderSource WebGLShader string
  | GL_compileShader WebGLShader
  | GL_getShaderParameter WebGLShader GLenum
  | GL_getShaderInfoLog WebGLShader

record WebGL2RenderingContext =
  gl_canvas :: nat
  gl_drawingBufferColorSpace :: "PredefinedColorSpace option"
  gl_unpackColorSpace :: "PredefinedColorSpace option"
  gl_active_texture :: int
  gl_blend_color :: Color
  bound_vao :: "WebGLVertexArrayObject option"
  context_lost :: bool
  next_handle :: nat
  driver_link :: "WebGLProgram \<Rightarrow> bool \<times> string option"
  link_status :: "WebGLProgram \<Rightarrow> bool"
  program_info_log :: "WebGLProgram \<Rightarrow> string option"
  deleted_programs :: "WebGLProgram set"
  driver_compile :: "string \<Rightarrow> bool \<times> string option"
  shader_source :: "WebGLShader \<Rightarrow> string"
  compile_status :: "WebGLShader \<Rightarrow> bool"
  shader_info_log :: "WebGLShader \<Rightarrow> string option"
  calls :: "native_call list"

text \<open>
  \<open>gl_active_texture\<close> is the enum value that \<open>getParameter(ACTIVE_TEXTURE)\<close>
  answers. \<open>bound_vao\<close> is the answer of \<open>Vao.getBound(gl)\<close>; the class \<open>Vao\<close> is not
  among the sources, so its answer is a field of the state. \<open>context_lost\<close> makes
  \<open>createProgram\<close> and \<open>createShader\<close> answer \<open>null\<close>. \<open>driver_link\<close> and
  \<open>driver_compile\<close> are the driver's verdict and diagnostic text for a program and
  for a shader source.
\<close>

definition issue :: "native_call \<Rightarrow> WebGL2RenderingContext \<Rightarrow> WebGL2RenderingContext" where
  "issue c gl = gl\<lparr>calls := calls gl @ [c]\<rparr>"

definition new_calls :: "WebGL2RenderingContext \<Rightarrow> WebGL2RenderingContext \<Rightarrow> native_call list" where
  "new_calls gl gl' = drop (length (calls gl)) (calls gl')"

definition read_drawingBufferColorSpace ::
  "WebGL2RenderingContext \<Rightarrow> PredefinedColorSpace option \<times> WebGL2RenderingContext" where
  "read_drawingBufferColorSpace gl =
     (gl_drawingBufferColorSpace gl, issue GL_read_drawingBufferColorSpace gl)"

definition write_drawingBufferColorSpace ::
  "PredefinedColorSpace \<Rightarrow> WebGL2RenderingContext \<Rightarrow> WebGL2RenderingContext" where
  "write_drawingBufferColorSpace v gl =
     issue (GL_write_drawingBufferColorSpace v) (gl\<lparr>gl_drawingBufferColorSpace := Some v\<rparr>)"

definition read_unpackColorSpace ::
  "WebGL2RenderingContext \<Rightarrow> PredefinedColorSpace option \<times> WebGL2RenderingContext" where
  "read_unpackColorSpace gl = (gl_unpackColorSpace gl, issue GL_read_unpackColorSpace gl)"

definition write_unpackColorSpace ::
  "PredefinedColorSpace \<Rightarrow> WebGL2RenderingContext \<Rightarrow> WebGL2RenderingContext" where
  "write_unpackColorSpace v gl =
     issue (GL_write_unpackColorSpace v) (gl\<lparr>gl_unpackColorSpace := Some v\<rparr>)"

definition getParameter_ACTIVE_TEXTURE ::
  "WebGL2RenderingContext \<Rightarrow> int \<times> WebGL2RenderingContext" where
  "getParameter_ACTIVE_TEXTURE gl = (gl_active_texture gl, issue (GL_getParameter ACTIVE_TEXTURE) gl)"

definition getParameter_BLEND_COLOR ::
  "WebGL2RenderingContext \<Rightarrow> Color \<times> WebGL2RenderingContext" where
  "getParameter_BLEND_COLOR gl = (gl_blend_color gl, issue (GL_getParameter BLEND_COLOR) gl)"

definition activeTexture :: "int \<Rightarrow> WebGL2RenderingContext \<Rightarrow> WebGL2RenderingContext" where
  "activeTexture e gl = issue (GL_activeTexture e) (gl\<lparr>gl_active_texture := e\<rparr>)"

definition blendColor ::
  "real \<Rightarrow> real \<Rightarrow> real \<Rightarrow> real \<Rightarrow> WebGL2RenderingContext \<Rightarrow> WebGL2RenderingContext" where
  "blendColor r g b a gl =
     issue (GL_blendColor r g b a) (gl\<lparr>gl_blend_color := \<lparr>c0 = r, c1 = g, c2 = b, c3 = a\<rparr>\<rparr>)"

definition enableVertexAttribArray :: "int \<Rightarrow> WebGL2RenderingContext \<Rightarrow> WebGL2RenderingContext" where
  "enableVertexAttribArray i gl = issue (GL_enableVertexAttribArray i) gl"

definition disableVertexAttribArray :: "int \<Rightarrow> WebGL2RenderingContext \<Rightarrow> WebGL2RenderingContext" where
  "disableVertexAttribArray i gl = issue (GL_disableVertexAttribArray i) gl"

definition createProgram ::
  "WebGL2RenderingContext \<Rightarrow> WebGLProgram option \<times> WebGL2RenderingContext" where
  "createProgram gl =
     (if context_lost gl then (None, issue GL_createProgram gl)
      else (Some (next_handle gl), issue GL_createProgram (gl\<lparr>next_handle := Suc (next_handle gl)\<rparr>)))"

definition attachShader ::
  "WebGLProgram \<Rightarrow> WebGLShader \<Rightarrow> WebGL2RenderingContext \<Rightarrow> WebGL2RenderingContext" where
  "attachShader p s gl = issue (GL_attachShader p s) gl"

definition bindAttribLocation ::
  "WebGLProgram \<Rightarrow> int \<Rightarrow> string \<Rightarrow> WebGL2RenderingContext \<Rightarrow> WebGL2RenderingContext" where
  "bindAttribLocation p i n gl = issue (GL_bindAttribLocation p i n) gl"

definition linkProgram :: "WebGLProgram \<Rightarrow> WebGL2RenderingContext \<Rightarrow> WebGL2RenderingContext" where
  "linkProgram p gl =
     issue (GL_linkProgram p)
       (gl\<lparr>link_status := (link_status gl)(p := fst (driver_link gl p)),
           program_info_log := (program_info_log gl)(p := snd (driver_link gl p))\<rparr>)"

definition getProgramParameter_LINK_STATUS ::
  "WebGLProgram \<Rightarrow> WebGL2RenderingContext \<Rightarrow> bool \<times> WebGL2RenderingContext" where
  "getProgramParameter_LINK_STATUS p gl =
     (link_status gl p, issue (GL_getProgramParameter p LINK_STATUS) gl)"

definition getProgramInfoLog ::
  "WebGLProgram \<Rightarrow> WebGL2RenderingContext \<Rightarrow> string option \<times> WebGL2RenderingContext" where
  "getProgramInfoLog p gl = (program_info_log gl p, issue (GL_getProgramInfoLog p) gl)"

definition deleteProgram :: "WebGLProgram \<Rightarrow> WebGL2RenderingContext \<Rightarrow> WebGL2RenderingContext" where
  "deleteProgram p gl =
     issue (GL_deleteProgram p) (gl\<lparr>deleted_programs := insert p (deleted_programs gl)\<rparr>)"

section \<open>Errors\<close>

text \<open>
  Each error class carries the message its constructor was given; \<open>None\<close> is a
  constructor call without an argument (or with \<open>undefined\<close>).
\<close>

datatype error =
    UnsupportedOperationError "string option"
  | ProgramLinkError "string option"
  | ShaderCompileError "string option"
  | Error string

section \<open>Context\<close>

record Canvas =
  canvas_id :: nat
  getContext :: "string \<Rightarrow> WebGLContextAttributes option \<Rightarrow> WebGL2RenderingContext option"

datatype source = RawContext WebGL2RenderingContext | FromCanvas Canvas

record Context =
  canvas :: nat
  drawingBufferColorSpaceCache :: "PredefinedColorSpace option"
  unpackColorSpaceCache :: "PredefinedColorSpace option"
  activeTextureCache :: "int option"
  blendColorCache :: "Color option"

text \<open>
  \<open>ApiInterface\<close>, the superclass, is not among the sources: \<open>super(gl)\<close> keeps the
  native context as \<open>this.gl\<close>. The wrapper and its native context travel as a pair.
  \<open>ApiInterface_new\<close> is what both branches of the constructor of \<open>Context\<close> do
  with the native context they have: \<open>super(gl)\<close>, then \<open>this.canvas = this.gl.canvas\<close>,
  with the four caches undefined.
\<close>

type_synonym wrapped = "Context \<times> WebGL2RenderingContext"

definition ApiInterface_new :: "WebGL2RenderingContext \<Rightarrow> wrapped" where
  "ApiInterface_new gl =
     (\<lparr>canvas = gl_canvas gl, drawingBufferColorSpaceCache = None, unpackColorSpaceCache = None,
       activeTextureCache = None, blendColorCache = None\<rparr>, gl)"

text \<open>
  The constructor returns its outcome with the calls it issued on the canvas.
\<close>

fun Context_new ::
  "source \<Rightarrow> WebGLContextAttributes option \<Rightarrow> (error + wrapped) \<times> native_call list" where
  "Context_new (RawContext gl) options = (Inr (ApiInterface_new gl), [])"
| "Context_new (FromCanvas cv) options =
     (case getContext cv ''webgl2'' options of
        None \<Rightarrow>
          (Inl (UnsupportedOperationError (Some ''The environment does not support WebGL2.'')),
           [GL_getContext ''webgl2'' options])
      | Some gl \<Rightarrow> (Inr (ApiInterface_new gl), [GL_getContext ''webgl2'' options]))"

text \<open>
  A getter answers its cache after filling it when it is \<open>undefined\<close>. What the
  native property answers is assigned to the cache as it is, so an answer
  \<open>undefined\<close> leaves the cache \<open>undefined\<close> and is what the getter returns.
\<close>

definition Context_get_drawingBufferColorSpace ::
  "wrapped \<Rightarrow> PredefinedColorSpace option \<times> wrapped" where
  "Context_get_drawingBufferColorSpace w =
     (case w of (this, gl) \<Rightarrow>
        (case drawingBufferColorSpaceCache this of
           None \<Rightarrow>
             (case read_drawingBufferColorSpace gl of (v, gl') \<Rightarrow>
                (v, (this\<lparr>drawingBufferColorSpaceCache := v\<rparr>, gl')))
         | Some v \<Rightarrow> (Some v, (this, gl))))"

definition Context_set_drawingBufferColorSpace :: "PredefinedColorSpace \<Rightarrow> wrapped \<Rightarrow> wrapped" where
  "Context_set_drawingBufferColorSpace v w =
     (case w of (this, gl) \<Rightarrow>
        if drawingBufferColorSpaceCache this = Some v then (this, gl)
        else (this\<lparr>drawingBufferColorSpaceCache := Some v\<rparr>, write_drawingBufferColorSpace v gl))"

definition Context_get_unpackColorSpace ::
  "wrapped \<Rightarrow> PredefinedColorSpace option \<times> wrapped" where
  "Context_get_unpackColorSpace w =
     (case w of (this, gl) \<Rightarrow>
        (case unpackColorSpaceCache this of
           None \<Rightarrow>
             (case read_unpackColorSpace gl of (v, gl') \<Rightarrow>
                (v, (this\<lparr>unpackColorSpaceCache := v\<rparr>, gl')))
         | Some v \<Rightarrow> (Some v, (this, gl))))"

definition Context_set_unpackColorSpace :: "PredefinedColorSpace \<Rightarrow> wrapped \<Rightarrow> wrapped" where
  "Context_set_unpackColorSpace v w =
     (case w of (this, gl) \<Rightarrow>
        if unpackColorSpaceCache this = Some v then (this, gl)
        else (this\<lparr>unpackColorSpaceCache := Some v\<rparr>, write_unpackColorSpace v gl))"

text \<open>
  The module of constants is not among the sources; \<open>TEXTURE0\<close> is a parameter of
  the two accessors that compute with it.
\<close>

definition Context_get_activeTexture :: "int \<Rightarrow> wrapped \<Rightarrow> int \<times> wrapped" where
  "Context_get_activeTexture TEXTURE0 w =
     (case w of (this, gl) \<Rightarrow>
        (case activeTextureCache this of
           None \<Rightarrow>
             (case getParameter_ACTIVE_TEXTURE gl of (e, gl') \<Rightarrow>
                (e - TEXTURE0, (this\<lparr>activeTextureCache := Some (e - TEXTURE0)\<rparr>, gl')))
         | Some v \<Rightarrow> (v, (this, gl))))"

definition Context_set_activeTexture :: "int \<Rightarrow> int \<Rightarrow> wrapped \<Rightarrow> wrapped" where
  "Context_set_activeTexture TEXTURE0 v w =
     (case w of (this, gl) \<Rightarrow>
        if activeTextureCache this = Some v then (this, gl)
        else (this\<lparr>activeTextureCache := Some v\<rparr>, activeTexture (v + TEXTURE0) gl))"

definition Context_get_blendColor :: "wrapped \<Rightarrow> Color \<times> wrapped" where
  "Context_get_blendColor w =
     (case w of (this, gl) \<Rightarrow>
        (case blendColorCache this of
           None \<Rightarrow>
             (case getParameter_BLEND_COLOR gl of (v, gl') \<Rightarrow>
                (v, (this\<lparr>blendColorCache := Some v\<rparr>, gl')))
         | Some v \<Rightarrow> (v, (this, gl))))"

definition Context_set_blendColor :: "Color \<Rightarrow> wrapped \<Rightarrow> wrapped" where
  "Context_set_blendColor v w =
     (case w of (this, gl) \<Rightarrow>
        if (case blendColorCache this of
              None \<Rightarrow> False
            | Some cache \<Rightarrow> c0 cache = c0 v \<and> c1 cache = c1 v \<and> c2 cache = c2 v \<and> c3 cache = c3 v)
        then (this, gl)
        else (this\<lparr>blendColorCache := Some v\<rparr>, blendColor (c0 v) (c1 v) (c2 v) (c3 v) gl))"

text \<open>
  Reads of the four lazily cached properties, one after the other. A read is named
  by its property and answers a tagged value; \<open>Undefined\<close> is the answer
  \<open>undefined\<close> of a colour space.
\<close>

datatype property = DrawingBufferColorSpace | UnpackColorSpace | ActiveTexture | BlendColor

datatype property_value =
  ColorSpaceValue PredefinedColorSpace | NumberValue int | ColorValue Color | Undefined

fun color_space_value :: "PredefinedColorSpace option \<Rightarrow> property_value" where
  "color_space_value None = Undefined"
| "color_space_value (Some s) = ColorSpaceValue s"

fun read_property :: "int \<Rightarrow> property \<Rightarrow> wrapped \<Rightarrow> property_value \<times> wrapped" where
  "read_property TEXTURE0 DrawingBufferColorSpace w =
     (case Context_get_drawingBufferColorSpace w of (v, w') \<Rightarrow> (color_space_value v, w'))"
| "read_property TEXTURE0 UnpackColorSpace w =
     (case Context_get_unpackColorSpace w of (v, w') \<Rightarrow> (color_space_value v, w'))"
| "read_property TEXTURE0 ActiveTexture w =
     (case Context_get_activeTexture TEXTURE0 w of (v, w') \<Rightarrow> (NumberValue v, w'))"
| "read_property TEXTURE0 BlendColor w =
     (case Context_get_blendColor w of (v, w') \<Rightarrow> (ColorValue v, w'))"

fun read_properties :: "int \<Rightarrow> property list \<Rightarrow> wrapped \<Rightarrow> property_value list \<times> wrapped" where
  "read_properties TEXTURE0 [] w = ([], w)"
| "read_properties TEXTURE0 (p # ps) w =
     (case read_property TEXTURE0 p w of (v, w') \<Rightarrow>
        (case read_properties TEXTURE0 ps w' of (vs, w'') \<Rightarrow> (v # vs, w'')))"

fun native_query :: "property \<Rightarrow> native_call" where
  "native_query DrawingBufferColorSpace = GL_read_drawingBufferColorSpace"
| "native_query UnpackColorSpace = GL_read_unpackColorSpace"
| "native_query ActiveTexture = GL_getParameter ACTIVE_TEXTURE"
| "native_query BlendColor = GL_getParameter BLEND_COLOR"

text \<open>
  What the native context holds for a property, as the getter would answer it:
  the state behind the native query, less \<open>TEXTURE0\<close> for the texture unit.
\<close>

fun native_value :: "int \<Rightarrow> property \<Rightarrow> WebGL2RenderingContext \<Rightarrow> property_value" where
  "native_value TEXTURE0 DrawingBufferColorSpace gl = color_space_value (gl_drawingBufferColorSpace gl)"
| "native_value TEXTURE0 UnpackColorSpace gl = color_space_value (gl_unpackColorSpace gl)"
| "native_value TEXTURE0 ActiveTexture gl = NumberValue (gl_active_texture gl - TEXTURE0)"
| "native_value TEXTURE0 BlendColor gl = ColorValue (gl_blend_color gl)"

definition queries :: "property \<Rightarrow> wrapped \<Rightarrow> nat" where
  "queries p w = count_list (calls (snd w)) (native_query p)"

section \<open>Attribute\<close>

text \<open>
  \<open>Buffer\<close> and \<open>AttributeValue\<close> are declared elsewhere; a value names its buffer
  and may give the layout of the data. \<open>Buffer.bind\<close> and the abstract
  \<open>setterInternal\<close> are parameters of \<open>setValue\<close>.
\<close>

type_synonym Buffer = nat

record AttributeValue =
  buffer :: Buffer
  components :: "nat option"
  normalized :: "bool option"
  stride :: "int option"
  offset :: "int option"

record Attribute =
  location :: int
  enabledVaosCache :: "WebGLVertexArrayObject list"
  valueCache :: "AttributeValue option"

definition Vao_getBound :: "WebGL2RenderingContext \<Rightarrow> WebGLVertexArrayObject option" where
  "Vao_getBound gl = bound_vao gl"

fun indexOf :: "'a list \<Rightarrow> 'a \<Rightarrow> int" where
  "indexOf [] x = -1"
| "indexOf (y # ys) x = (if y = x then 0 else (let i = indexOf ys x in if i < 0 then -1 else i + 1))"

text \<open>\<open>splice(start, 1)\<close>; a negative start counts from the end of the array.\<close>

definition splice1 :: "int \<Rightarrow> 'a list \<Rightarrow> 'a list" where
  "splice1 start xs =
     (let n = int (length xs);
          i = (if start < 0 then max (n + start) 0 else min start n)
      in take (nat i) xs @ drop (Suc (nat i)) xs)"

definition Attribute_get_enabled :: "Attribute \<Rightarrow> WebGL2RenderingContext \<Rightarrow> bool" where
  "Attribute_get_enabled this gl =
     (case Vao_getBound gl of
        None \<Rightarrow> False
      | Some vao \<Rightarrow> vao \<in> set (enabledVaosCache this))"

definition Attribute_set_enabled ::
  "bool \<Rightarrow> Attribute \<Rightarrow> WebGL2RenderingContext \<Rightarrow> Attribute \<times> WebGL2RenderingContext" where
  "Attribute_set_enabled v this gl =
     (if Attribute_get_enabled this gl = v then (this, gl)
      else
        (let vao = Vao_getBound gl in
           if v then
             (let gl' = enableVertexAttribArray (location this) gl in
                (case vao of
                   None \<Rightarrow> (this, gl')
                 | Some x \<Rightarrow>
                     if x \<notin> set (enabledVaosCache this)
                     then (this\<lparr>enabledVaosCache := enabledVaosCache this @ [x]\<rparr>, gl')
                     else (this, gl')))
           else
             (let gl' = disableVertexAttribArray (location this) gl in
                (case vao of
                   None \<Rightarrow> (this, gl')
                 | Some x \<Rightarrow>
                     if x \<in> set (enabledVaosCache this)
                     then (this\<lparr>enabledVaosCache :=
                             splice1 (indexOf (enabledVaosCache this) x) (enabledVaosCache this)\<rparr>, gl')
                     else (this, gl')))))"

definition Attribute_get_value :: "Attribute \<Rightarrow> AttributeValue option" where
  "Attribute_get_value this = valueCache this"

text \<open>The argument of \<open>setValue\<close> is an attribute value (\<open>Inl\<close>) or a bare buffer (\<open>Inr\<close>).\<close>

definition Attribute_setValue ::
  "(Buffer \<Rightarrow> GLenum \<Rightarrow> WebGL2RenderingContext \<Rightarrow> WebGL2RenderingContext) \<Rightarrow>
   (Attribute \<Rightarrow> AttributeValue \<Rightarrow> WebGL2RenderingContext \<Rightarrow> WebGL2RenderingContext) \<Rightarrow>
   AttributeValue + Buffer \<Rightarrow> Attribute \<Rightarrow> WebGL2RenderingContext \<Rightarrow>
   Attribute \<times> WebGL2RenderingContext" where
  "Attribute_setValue bind setterInternal v this gl =
     (case Attribute_set_enabled True this gl of (this1, gl1) \<Rightarrow>
        (let realValue =
               (case v of
                  Inl value \<Rightarrow> value
                | Inr b \<Rightarrow> \<lparr>buffer = b, components = None, normalized = None,
                            stride = None, offset = None\<rparr>);
             gl2 = bind (buffer realValue) ARRAY_BUFFER gl1;
             gl3 = setterInternal this1 realValue gl2
         in (this1\<lparr>valueCache := Some realValue\<rparr>, gl3)))"

section \<open>Shader\<close>

record Shader =
  shader_internal :: WebGLShader
  shader_type :: ShaderType
  shader_text :: string

definition createShader ::
  "ShaderType \<Rightarrow> WebGL2RenderingContext \<Rightarrow> WebGLShader option \<times> WebGL2RenderingContext" where
  "createShader t gl =
     (if context_lost gl then (None, issue (GL_createShader t) gl)
      else (Some (next_handle gl), issue (GL_createShader t) (gl\<lparr>next_handle := Suc (next_handle gl)\<rparr>)))"

definition shaderSource ::
  "WebGLShader \<Rightarrow> string \<Rightarrow> WebGL2RenderingContext \<Rightarrow> WebGL2RenderingContext" where
  "shaderSource s src gl = issue (GL_shaderSource s src) (gl\<lparr>shader_source := (shader_source gl)(s := src)\<rparr>)"

definition compileShader :: "WebGLShader \<Rightarrow> WebGL2RenderingContext \<Rightarrow> WebGL2RenderingContext" where
  "compileShader s gl =
     issue (GL_compileShader s)
       (gl\<lparr>compile_status := (compile_status gl)(s := fst (driver_compile gl (shader_source gl s))),
           shader_info_log := (shader_info_log gl)(s := snd (driver_compile gl (shader_source gl s)))\<rparr>)"

definition getShaderParameter_COMPILE_STATUS ::
  "WebGLShader \<Rightarrow> WebGL2RenderingContext \<Rightarrow> bool \<times> WebGL2RenderingContext" where
  "getShaderParameter_COMPILE_STATUS s gl =
     (compile_status gl s, issue (GL_getShaderParameter s COMPILE_STATUS) gl)"

definition getShaderInfoLog ::
  "WebGLShader \<Rightarrow> WebGL2RenderingContext \<Rightarrow> string option \<times> WebGL2RenderingContext" where
  "getShaderInfoLog s gl = (shader_info_log gl s, issue (GL_getShaderInfoLog s) gl)"

text \<open>
  Modelled from the spec: the constructor of \<open>Shader\<close>, which is not among the
  sources. The spec gives every constructor one shape: it acquires a native handle
  and fails with a typed error if acquisition fails; a compile failure carries the
  driver's diagnostic text; the failure is detected at the native call and
  propagated at once, with no retry and no recovery.
\<close>

definition Shader_new ::
  "ShaderType \<Rightarrow> string \<Rightarrow> WebGL2RenderingContext \<Rightarrow> (error + Shader) \<times> WebGL2RenderingContext" where
  "Shader_new t src gl =
     (case createShader t gl of
        (None, gl1) \<Rightarrow> (Inl (UnsupportedOperationError None), gl1)
      | (Some s, gl1) \<Rightarrow>
          (let gl2 = shaderSource s src gl1;
               gl3 = compileShader s gl2
           in (case getShaderParameter_COMPILE_STATUS s gl3 of (ok, gl4) \<Rightarrow>
                 if \<not> ok
                 then (case getShaderInfoLog s gl4 of (infoLog, gl5) \<Rightarrow> (Inl (ShaderCompileError infoLog), gl5))
                 else (Inr \<lparr>shader_internal = s, shader_type = t, shader_text = src\<rparr>, gl4))))"

section \<open>Program\<close>

record Program =
  internal :: WebGLProgram
  vertexShader :: Shader
  fragmentShader :: Shader

definition Program_get_linkStatus ::
  "Program \<Rightarrow> WebGL2RenderingContext \<Rightarrow> bool \<times> WebGL2RenderingContext" where
  "Program_get_linkStatus this gl = getProgramParameter_LINK_STATUS (internal this) gl"

definition Program_get_infoLog ::
  "Program \<Rightarrow> WebGL2RenderingContext \<Rightarrow> string option \<times> WebGL2RenderingContext" where
  "Program_get_infoLog this gl = getProgramInfoLog (internal this) gl"

text \<open>
  \<open>attributeLocations\<close> is a \<open>Map\<close>, iterated in insertion order: a list of pairs.
  \<open>this.infoLog ?? void 0\<close> turns \<open>null\<close> into \<open>undefined\<close>; both are \<open>None\<close>.
\<close>

definition Program_new ::
  "Shader \<Rightarrow> Shader \<Rightarrow> (string \<times> int) list option \<Rightarrow> WebGL2RenderingContext \<Rightarrow>
   (error + Program) \<times> WebGL2RenderingContext" where
  "Program_new vs fs attributeLocations gl =
     (case createProgram gl of
        (None, gl1) \<Rightarrow> (Inl (UnsupportedOperationError None), gl1)
      | (Some program, gl1) \<Rightarrow>
          (let this = \<lparr>internal = program, vertexShader = vs, fragmentShader = fs\<rparr>;
               gl2 = attachShader program (shader_internal vs) gl1;
               gl3 = attachShader program (shader_internal fs) gl2;
               gl4 = (case attributeLocations of
                        None \<Rightarrow> gl3
                      | Some m \<Rightarrow> fold (\<lambda>(name, loc). bindAttribLocation program loc name) m gl3);
               gl5 = linkProgram program gl4
           in (case Program_get_linkStatus this gl5 of (ok, gl6) \<Rightarrow>
                 if \<not> ok
                 then (case Program_get_infoLog this gl6 of (infoLog, gl7) \<Rightarrow> (Inl (ProgramLinkError infoLog), gl7))
                 else (Inr this, gl6))))"

text \<open>
  The arguments of \<open>new Program\<close> are evaluated left to right: an error of the
  first \<open>new Shader\<close> leaves before the second runs.
\<close>

definition Program_fromSource ::
  "string \<Rightarrow> string \<Rightarrow> WebGL2RenderingContext \<Rightarrow> (error + Program) \<times> WebGL2RenderingContext" where
  "Program_fromSource vertexShaderSource fragmentShaderSource gl =
     (case Shader_new VERTEX_SHADER vertexShaderSource gl of
        (Inl e, gl1) \<Rightarrow> (Inl e, gl1)
      | (Inr vs, gl1) \<Rightarrow>
          (case Shader_new FRAGMENT_SHADER fragmentShaderSource gl1 of
             (Inl e, gl2) \<Rightarrow> (Inl e, gl2)
           | (Inr fs, gl2) \<Rightarrow> Program_new vs fs None gl2))"

definition Program_delete :: "Program \<Rightarrow> WebGL2RenderingContext \<Rightarrow> Program \<times> WebGL2RenderingContext" where
  "Program_delete this gl = (this, deleteProgram (internal this) gl)"

section \<open>AttributeState\<close>

text \<open>
  \<open>AttributeState\<close> belongs to an earlier layout of the library, whose \<open>Program\<close>
  has a map \<open>attributes\<close> from names to attributes. The program enters \<open>use\<close>
  through that map only; the setter behind \<open>attribute.value = this\<close> is declared
  elsewhere and is the parameter \<open>assign\<close>.
\<close>

record AttributeState =
  state_name :: string
  state_buffer :: Buffer
  state_size :: nat
  state_normalized :: bool
  state_stride :: int
  state_offset :: int

definition AttributeState_new ::
  "string \<Rightarrow> Buffer \<Rightarrow> nat option \<Rightarrow> bool option \<Rightarrow> int option \<Rightarrow> int option \<Rightarrow> AttributeState" where
  "AttributeState_new n b sz nrm st off =
     \<lparr>state_name = n, state_buffer = b,
      state_size = (case sz of None \<Rightarrow> 3 | Some k \<Rightarrow> k),
      state_normalized = (case nrm of None \<Rightarrow> False | Some k \<Rightarrow> k),
      state_stride = (case st of None \<Rightarrow> 0 | Some k \<Rightarrow> k),
      state_offset = (case off of None \<Rightarrow> 0 | Some k \<Rightarrow> k)\<rparr>"

definition AttributeState_use ::
  "('a \<Rightarrow> AttributeState \<Rightarrow> 'r) \<Rightarrow> AttributeState \<Rightarrow> (string \<rightharpoonup> 'a) \<Rightarrow> error + 'r" where
  "AttributeState_use assign this attributes =
     (case attributes (state_name this) of
        None \<Rightarrow> Inl (Error ''Attribute not found.'')
      | Some attribute \<Rightarrow> Inr (assign attribute this))"

section \<open>Traces\<close>

text \<open>
  \<open>calls_after c cs\<close> is what follows the first \<open>c\<close> in \<open>cs\<close>. A native call is a
  query when it only reads native state.
\<close>

definition calls_after :: "native_call \<Rightarrow> native_call list \<Rightarrow> native_call list" where
  "calls_after c cs = tl (dropWhile (\<lambda>x. x \<noteq> c) cs)"

fun is_query :: "native_call \<Rightarrow> bool" where
  "is_query GL_read_drawingBufferColorSpace = True"
| "is_query GL_read_unpackColorSpace = True"
| "is_query (GL_getParameter e) = True"
| "is_query (GL_getProgramParameter p e) = True"
| "is_query (GL_getProgramInfoLog p) = True"
| "is_query (GL_getShaderParameter s e) = True"
| "is_query (GL_getShaderInfoLog s) = True"
| "is_query c = False"

fun is_delete :: "native_call \<Rightarrow> bool" where
  "is_delete (GL_deleteProgram p) = True"
| "is_delete c = False"

text \<open>
  The calls of the loop over \<open>attributeLocations\<close> in the constructor of
  \<open>Program\<close>.
\<close>

definition bind_calls :: "WebGLProgram \<Rightarrow> (string \<times> int) list option \<Rightarrow> native_call list" where
  "bind_calls p m =
     (case m of None \<Rightarrow> [] | Some l \<Rightarrow> map (\<lambda>(name, loc). GL_bindAttribLocation p loc name) l)"

text \<open>
  \<open>releases_nothing gl gl'\<close>: from \<open>gl\<close> to \<open>gl'\<close> the trace has only grown, no
  deletion was called and the set of deleted programs is the same.
\<close>

definition releases_nothing :: "WebGL2RenderingContext \<Rightarrow> WebGL2RenderingContext \<Rightarrow> bool" where
  "releases_nothing gl gl' =
     (deleted_programs gl' = deleted_programs gl \<and>
      take (length (calls gl)) (calls gl') = calls gl \<and>
      \<not> list_ex is_delete (new_calls gl gl'))"

text \<open>
  The operations of the wrappers as values, each naming the wrapper object it is
  applied to, and their effect on the native context.
\<close>

datatype operation =
    Op_Context_get property Context
  | Op_Context_set_drawingBufferColorSpace PredefinedColorSpace Context
  | Op_Context_set_unpackColorSpace PredefinedColorSpace Context
  | Op_Context_set_activeTexture int Context
  | Op_Context_set_blendColor Color Context
  | Op_Attribute_set_enabled bool Attribute
  | Op_Program_new Shader Shader "(string \<times> int) list option"
  | Op_Program_get_linkStatus Program
  | Op_Program_get_infoLog Program
  | Op_Program_delete Program

fun perform :: "int \<Rightarrow> operation \<Rightarrow> WebGL2RenderingContext \<Rightarrow> WebGL2RenderingContext" where
  "perform TEXTURE0 (Op_Context_get p this) gl = snd (snd (read_property TEXTURE0 p (this, gl)))"
| "perform TEXTURE0 (Op_Context_set_drawingBufferColorSpace v this) gl =
     snd (Context_set_drawingBufferColorSpace v (this, gl))"
| "perform TEXTURE0 (Op_Context_set_unpackColorSpace v this) gl =
     snd (Context_set_unpackColorSpace v (this, gl))"
| "perform TEXTURE0 (Op_Context_set_activeTexture v this) gl =
     snd (Context_set_activeTexture TEXTURE0 v (this, gl))"
| "perform TEXTURE0 (Op_Context_set_blendColor v this) gl = snd (Context_set_blendColor v (this, gl))"
| "perform TEXTURE0 (Op_Attribute_set_enabled v this) gl = snd (Attribute_set_enabled v this gl)"
| "perform TEXTURE0 (Op_Program_new vs fs m) gl = snd (Program_new vs fs m gl)"
| "perform TEXTURE0 (Op_Program_get_linkStatus this) gl = snd (Program_get_linkStatus this gl)"
| "perform TEXTURE0 (Op_Program_get_infoLog this) gl = snd (Program_get_infoLog this gl)"
| "perform TEXTURE0 (Op_Program_delete this) gl = snd (Program_delete this gl)"

fun is_Program_delete :: "operation \<Rightarrow> bool" where
  "is_Program_delete (Op_Program_delete this) = True"
| "is_Program_delete opn = False"

text \<open>The content of the cache behind a lazily cached property.\<close>

fun cached_value :: "property \<Rightarrow> wrapped \<Rightarrow> property_value option" where
  "cached_value DrawingBufferColorSpace w = map_option ColorSpaceValue (drawingBufferColorSpaceCache (fst w))"
| "cached_value UnpackColorSpace w = map_option ColorSpaceValue (unpackColorSpaceCache (fst w))"
| "cached_value ActiveTexture w = map_option NumberValue (activeTextureCache (fst w))"
| "cached_value BlendColor w = map_option ColorValue (blendColorCache (fst w))"

section \<open>Concrete states\<close>

text \<open>
  A native context on which nothing has been called: no vertex array object is
  bound, the driver links every program and compiles every shader but the empty
  one.
\<close>

definition fresh_gl :: WebGL2RenderingContext where
  "fresh_gl =
     \<lparr>gl_canvas = 0, gl_drawingBufferColorSpace = Some srgb, gl_unpackColorSpace = Some srgb,
      gl_active_texture = 33984, gl_blend_color = \<lparr>c0 = 0, c1 = 0, c2 = 0, c3 = 0\<rparr>,
      bound_vao = None, context_lost = False, next_handle = 1,
      driver_link = (\<lambda>p. (True, Some [])), link_status = (\<lambda>p. False),
      program_info_log = (\<lambda>p. None), deleted_programs = {},
      driver_compile = (\<lambda>src. if src = [] then (False, Some ''ERROR: no main'') else (True, Some [])),
      shader_source = (\<lambda>s. []), compile_status = (\<lambda>s. False),
      shader_info_log = (\<lambda>s. None), calls = []\<rparr>"

text \<open>
  A native context without the experimental property \<open>unpackColorSpace\<close>: reading
  it answers \<open>undefined\<close>.
\<close>

definition legacy_gl :: WebGL2RenderingContext where
  "legacy_gl = fresh_gl\<lparr>gl_unpackColorSpace := None\<rparr>"

definition fresh_context :: Context where
  "fresh_context = fst (ApiInterface_new fresh_gl)"

definition fresh_attribute :: Attribute where
  "fresh_attribute = \<lparr>location = 0, enabledVaosCache = [], valueCache = None\<rparr>"

definition some_value :: AttributeValue where
  "some_value = \<lparr>buffer = 7, components = Some 3, normalized = None, stride = None, offset = None\<rparr>"

definition vertex_shader :: Shader where
  "vertex_shader = \<lparr>shader_internal = 0, shader_type = VERTEX_SHADER, shader_text = ''void main() {}''\<rparr>"

definition fragment_shader :: Shader where
  "fragment_shader = \<lparr>shader_internal = 0, shader_type = FRAGMENT_SHADER, shader_text = ''void main() {}''\<rparr>"

text \<open>A context whose four caches are filled, and two canvases: one gives a context, one does not.\<close>

definition warm_context :: Context where
  "warm_context =
     \<lparr>canvas = 0, drawingBufferColorSpaceCache = Some srgb, unpackColorSpaceCache = Some display_p3,
      activeTextureCache = Some 2, blendColorCache = Some \<lparr>c0 = 1, c1 = 0, c2 = 0, c3 = 1\<rparr>\<rparr>"

definition page_canvas :: Canvas where
  "page_canvas =
     \<lparr>canvas_id = 0, getContext = (\<lambda>kind options. if kind = ''webgl2'' then Some fresh_gl else None)\<rparr>"

definition headless_canvas :: Canvas where
  "headless_canvas = \<lparr>canvas_id = 1, getContext = (\<lambda>kind options. None)\<rparr>"

section \<open>The trace\<close>

lemma calls_issue: "calls (issue c gl) = calls gl @ [c]"
  by (simp add: issue_def)

lemma new_calls_append: "calls gl' = calls gl @ cs \<Longrightarrow> new_calls gl gl' = cs"
  by (simp add: new_calls_def)

lemma new_calls_issue: "new_calls gl (issue c gl) = [c]"
  by (simp add: new_calls_def issue_def)

lemma new_calls_same: "new_calls gl gl = []"
  by (simp add: new_calls_def)

section \<open>Setters and their caches\<close>

text \<open>
  C1, as amended. A setter of \<open>Context\<close> (\<open>drawingBufferColorSpace\<close>,
  \<open>unpackColorSpace\<close>, \<open>activeTexture\<close>, \<open>blendColor\<close>) and the setter
  \<open>Attribute.enabled\<close> return the wrapper and the native context as they were,
  without a native call, when the requested value equals the cached one.
  \<open>Attribute.setValue\<close> does not consult its cached value: on every call it
  assigns \<open>enabled = true\<close>, binds the buffer and runs \<open>setterInternal\<close>.
\<close>

theorem setter_skips_equal_value:
  "(drawingBufferColorSpaceCache this = Some s \<longrightarrow>
      Context_set_drawingBufferColorSpace s (this, gl) = (this, gl)) \<and>
   (unpackColorSpaceCache this = Some s \<longrightarrow>
      Context_set_unpackColorSpace s (this, gl) = (this, gl)) \<and>
   (activeTextureCache this = Some n \<longrightarrow>
      Context_set_activeTexture TEXTURE0 n (this, gl) = (this, gl)) \<and>
   (blendColorCache this = Some c \<longrightarrow>
      Context_set_blendColor c (this, gl) = (this, gl)) \<and>
   (Attribute_get_enabled a gl = b \<longrightarrow> Attribute_set_enabled b a gl = (a, gl)) \<and>
   (case Attribute_set_enabled True a gl of (a1, gl1) \<Rightarrow>
      Attribute_setValue bind setterInternal (Inl v) a gl =
        (a1\<lparr>valueCache := Some v\<rparr>, setterInternal a1 v (bind (buffer v) ARRAY_BUFFER gl1)))"
  by (simp add: Context_set_drawingBufferColorSpace_def Context_set_unpackColorSpace_def
      Context_set_activeTexture_def Context_set_blendColor_def Attribute_set_enabled_def
      Attribute_setValue_def split: prod.splits)

text \<open>
  C1 as stated fails for the value assignment of an attribute: the attribute
  holds \<open>some_value\<close> in its cache and is given \<open>some_value\<close> again, with no vertex
  array object bound; even with a buffer binding and a \<open>setterInternal\<close> that
  call nothing, \<open>enableVertexAttribArray\<close> is issued.
\<close>

theorem setValue_ignores_cache_counterexample:
  "Attribute_get_value (fresh_attribute\<lparr>valueCache := Some some_value\<rparr>) = Some some_value \<and>
   new_calls fresh_gl
     (snd (Attribute_setValue (\<lambda>b t g. g) (\<lambda>a v g. g) (Inl some_value)
        (fresh_attribute\<lparr>valueCache := Some some_value\<rparr>) fresh_gl))
     = [GL_enableVertexAttribArray 0]"
  by (simp add: Attribute_get_value_def Attribute_setValue_def Attribute_set_enabled_def
      Attribute_get_enabled_def Vao_getBound_def enableVertexAttribArray_def new_calls_issue
      fresh_attribute_def fresh_gl_def)

text \<open>
  The amended C1 at work: the four caches of \<open>warm_context\<close> hold the values
  that are assigned, and the attribute reads \<open>false\<close> and is assigned \<open>false\<close>.
\<close>

theorem setter_skips_equal_value_witness:
  "drawingBufferColorSpaceCache warm_context = Some srgb \<and>
   Context_set_drawingBufferColorSpace srgb (warm_context, fresh_gl) = (warm_context, fresh_gl) \<and>
   unpackColorSpaceCache warm_context = Some display_p3 \<and>
   Context_set_unpackColorSpace display_p3 (warm_context, fresh_gl) = (warm_context, fresh_gl) \<and>
   activeTextureCache warm_context = Some 2 \<and>
   Context_set_activeTexture 33984 2 (warm_context, fresh_gl) = (warm_context, fresh_gl) \<and>
   blendColorCache warm_context = Some \<lparr>c0 = 1, c1 = 0, c2 = 0, c3 = 1\<rparr> \<and>
   Context_set_blendColor \<lparr>c0 = 1, c1 = 0, c2 = 0, c3 = 1\<rparr> (warm_context, fresh_gl)
     = (warm_context, fresh_gl) \<and>
   Attribute_get_enabled fresh_attribute fresh_gl = False \<and>
   Attribute_set_enabled False fresh_attribute fresh_gl = (fresh_attribute, fresh_gl)"
proof -
  have caches:
    "drawingBufferColorSpaceCache warm_context = Some srgb"
    "unpackColorSpaceCache warm_context = Some display_p3"
    "activeTextureCache warm_context = Some 2"
    "blendColorCache warm_context = Some \<lparr>c0 = 1, c1 = 0, c2 = 0, c3 = 1\<rparr>"
    by (simp_all add: warm_context_def)
  have off: "Attribute_get_enabled fresh_attribute fresh_gl = False"
    by (simp add: Attribute_get_enabled_def Vao_getBound_def fresh_gl_def)
  from caches off
    setter_skips_equal_value [where this = warm_context and gl = fresh_gl and s = srgb]
    setter_skips_equal_value [where this = warm_context and gl = fresh_gl and s = display_p3
      and n = 2 and ?TEXTURE0.0 = 33984 and c = "\<lparr>c0 = 1, c1 = 0, c2 = 0, c3 = 1\<rparr>"
      and a = fresh_attribute and b = False]
  show ?thesis by blast
qed

subsection \<open>Removing a vertex array object from the cache\<close>

text \<open>
  \<open>indexOf\<close> finds the first occurrence, so the \<open>splice\<close> of the setter removes
  it; the cache never holds a vertex array object twice.
\<close>

lemma indexOf_absent: "x \<notin> set xs \<Longrightarrow> indexOf xs x = -1"
  by (induction xs) (auto simp: Let_def)

lemma indexOf_present: "x \<in> set xs \<Longrightarrow> 0 \<le> indexOf xs x \<and> indexOf xs x < int (length xs)"
  by (induction xs) (auto simp: Let_def)

lemma splice1_Cons: "0 \<le> i \<Longrightarrow> splice1 (i + 1) (y # ys) = y # splice1 i ys"
  by (auto simp: splice1_def Let_def nat_add_distrib min_def)

lemma splice1_indexOf: "x \<in> set xs \<Longrightarrow> splice1 (indexOf xs x) xs = remove1 x xs"
proof (induction xs)
  case Nil
  then show ?case by simp
next
  case (Cons y ys)
  show ?case
  proof (cases "y = x")
    case True
    then show ?thesis by (simp add: splice1_def)
  next
    case False
    with Cons.prems have mem: "x \<in> set ys" by simp
    then have "0 \<le> indexOf ys x" using indexOf_present [of x ys] by simp
    with False mem Cons.IH show ?thesis
      by (simp add: Let_def splice1_Cons)
  qed
qed

lemma Attribute_set_enabled_distinct:
  "distinct (enabledVaosCache a) \<Longrightarrow> distinct (enabledVaosCache (fst (Attribute_set_enabled b a gl)))"
  by (auto simp: Attribute_set_enabled_def Let_def splice1_indexOf
      split: option.splits)




section \<open>Attribute.enabled without a vertex array object\<close>

text \<open>
  C8. If no vertex array object is bound, \<open>enabled\<close> reads \<open>false\<close>; assigning
  \<open>true\<close> then issues \<open>enableVertexAttribArray\<close> once and leaves the attribute,
  with its cache, as it was, so that \<open>enabled\<close> read right after is \<open>false\<close>.
\<close>

theorem enabled_without_vao:
  "Vao_getBound gl = None \<Longrightarrow>
   Attribute_get_enabled a gl = False \<and>
   (case Attribute_set_enabled True a gl of (a', gl') \<Rightarrow>
      new_calls gl gl' = [GL_enableVertexAttribArray (location a)] \<and>
      a' = a \<and> Attribute_get_enabled a' gl' = False)"
  by (simp add: Attribute_set_enabled_def Attribute_get_enabled_def Vao_getBound_def
      enableVertexAttribArray_def new_calls_def issue_def)

text \<open>
  C8 on the fresh attribute and the fresh native context.
\<close>

theorem enabled_without_vao_witness:
  "Vao_getBound fresh_gl = None \<and>
   Attribute_get_enabled fresh_attribute fresh_gl = False \<and>
   (case Attribute_set_enabled True fresh_attribute fresh_gl of (a', gl') \<Rightarrow>
      new_calls fresh_gl gl' = [GL_enableVertexAttribArray 0] \<and>
      a' = fresh_attribute \<and> Attribute_get_enabled a' gl' = False)"
proof -
  have unbound: "Vao_getBound fresh_gl = None"
    by (simp add: Vao_getBound_def fresh_gl_def)
  have "location fresh_attribute = 0"
    by (simp add: fresh_attribute_def)
  with unbound enabled_without_vao [OF unbound, of fresh_attribute] show ?thesis
    by simp
qed

section \<open>Texture units\<close>

text \<open>
  C9. The setter of \<open>activeTexture\<close> calls the native \<open>activeTexture\<close> with the
  unit index plus \<open>TEXTURE0\<close>; the getter, on an empty cache, answers
  \<open>getParameter(ACTIVE_TEXTURE)\<close> minus \<open>TEXTURE0\<close>; a read after a write answers
  the index written, for every index, and so does a read by a wrapper with an
  empty cache on the native context that the write has left.
\<close>

theorem activeTexture_offset_roundtrip:
  "(activeTextureCache this \<noteq> Some n \<longrightarrow>
      new_calls gl (snd (Context_set_activeTexture TEXTURE0 n (this, gl)))
        = [GL_activeTexture (n + TEXTURE0)]) \<and>
   (activeTextureCache this = None \<longrightarrow>
      fst (Context_get_activeTexture TEXTURE0 (this, gl))
        = fst (getParameter_ACTIVE_TEXTURE gl) - TEXTURE0 \<and>
      new_calls gl (snd (snd (Context_get_activeTexture TEXTURE0 (this, gl))))
        = [GL_getParameter ACTIVE_TEXTURE]) \<and>
   fst (Context_get_activeTexture TEXTURE0 (Context_set_activeTexture TEXTURE0 n (this, gl))) = n \<and>
   (activeTextureCache this \<noteq> Some n \<and> activeTextureCache that = None \<longrightarrow>
      fst (Context_get_activeTexture TEXTURE0
             (that, snd (Context_set_activeTexture TEXTURE0 n (this, gl)))) = n)"
  by (simp add: Context_set_activeTexture_def Context_get_activeTexture_def activeTexture_def
      getParameter_ACTIVE_TEXTURE_def new_calls_def issue_def split: option.splits)

text \<open>
  C9 with \<open>TEXTURE0 = 0x84C0\<close> and unit \<open>5\<close>.
\<close>

theorem activeTexture_offset_roundtrip_witness:
  "activeTextureCache fresh_context \<noteq> Some 5 \<and> activeTextureCache fresh_context = None \<and>
   new_calls fresh_gl (snd (Context_set_activeTexture 33984 5 (fresh_context, fresh_gl)))
     = [GL_activeTexture 33989] \<and>
   fst (Context_get_activeTexture 33984 (fresh_context, fresh_gl)) = 0 \<and>
   fst (Context_get_activeTexture 33984 (Context_set_activeTexture 33984 5 (fresh_context, fresh_gl))) = 5 \<and>
   fst (Context_get_activeTexture 33984
          (fresh_context, snd (Context_set_activeTexture 33984 5 (fresh_context, fresh_gl)))) = 5"
proof -
  have cold: "activeTextureCache fresh_context = None"
    by (simp add: fresh_context_def ApiInterface_new_def)
  have native: "fst (getParameter_ACTIVE_TEXTURE fresh_gl) = 33984"
    by (simp add: getParameter_ACTIVE_TEXTURE_def fresh_gl_def)
  from cold native
    activeTexture_offset_roundtrip [where this = fresh_context and that = fresh_context
      and gl = fresh_gl and n = 5 and ?TEXTURE0.0 = 33984]
  show ?thesis by simp
qed

section \<open>Creating a context\<close>

text \<open>
  C4. Constructing a \<open>Context\<close> from a canvas throws an
  \<open>UnsupportedOperationError\<close> if and only if \<open>getContext("webgl2", options)\<close>
  answers \<open>null\<close>; otherwise the constructor wraps the context that was answered.
  Either way \<open>getContext\<close> is called once.
\<close>

theorem Context_new_unsupported_iff:
  "(fst (Context_new (FromCanvas cv) options)
      = Inl (UnsupportedOperationError (Some ''The environment does not support WebGL2.''))
    \<longleftrightarrow> getContext cv ''webgl2'' options = None) \<and>
   ((\<exists>e. fst (Context_new (FromCanvas cv) options) = Inl e)
    \<longleftrightarrow> getContext cv ''webgl2'' options = None) \<and>
   (\<forall>gl. getContext cv ''webgl2'' options = Some gl \<longrightarrow>
      fst (Context_new (FromCanvas cv) options) = Inr (ApiInterface_new gl) \<and>
      canvas (fst (ApiInterface_new gl)) = gl_canvas gl \<and> snd (ApiInterface_new gl) = gl) \<and>
   snd (Context_new (FromCanvas cv) options) = [GL_getContext ''webgl2'' options]"
  by (simp add: ApiInterface_new_def split: option.splits)

text \<open>
  C4 on a canvas without WebGL2 and on one with it.
\<close>

theorem Context_new_unsupported_iff_witness:
  "getContext headless_canvas ''webgl2'' None = None \<and>
   fst (Context_new (FromCanvas headless_canvas) None)
     = Inl (UnsupportedOperationError (Some ''The environment does not support WebGL2.'')) \<and>
   getContext page_canvas ''webgl2'' None = Some fresh_gl \<and>
   fst (Context_new (FromCanvas page_canvas) None) = Inr (ApiInterface_new fresh_gl)"
proof -
  have none: "getContext headless_canvas ''webgl2'' None = None"
    by (simp add: headless_canvas_def)
  have some: "getContext page_canvas ''webgl2'' None = Some fresh_gl"
    by (simp add: page_canvas_def)
  from none some
    Context_new_unsupported_iff [of headless_canvas None]
    Context_new_unsupported_iff [of page_canvas None]
  show ?thesis by simp
qed

section \<open>Using an attribute state\<close>

text \<open>
  C10. \<open>AttributeState.use\<close> throws \<open>Error("Attribute not found.")\<close> if and only
  if the attribute map of the program has no entry for the name of the state;
  otherwise it assigns the state as the value of the attribute found.
\<close>

theorem AttributeState_use_error_iff:
  "(AttributeState_use assign this attributes = Inl (Error ''Attribute not found.'')
    \<longleftrightarrow> attributes (state_name this) = None) \<and>
   ((\<exists>e. AttributeState_use assign this attributes = Inl e)
    \<longleftrightarrow> attributes (state_name this) = None) \<and>
   (\<forall>attribute. attributes (state_name this) = Some attribute \<longrightarrow>
      AttributeState_use assign this attributes = Inr (assign attribute this))"
  by (simp add: AttributeState_use_def split: option.splits)

text \<open>
  C10 on a program whose only attribute is \<open>a_position\<close>.
\<close>

theorem AttributeState_use_error_iff_witness:
  "[''a_position'' \<mapsto> fresh_attribute]
     (state_name (AttributeState_new ''a_color'' 7 None None None None)) = None \<and>
   AttributeState_use Pair (AttributeState_new ''a_color'' 7 None None None None)
     [''a_position'' \<mapsto> fresh_attribute] = Inl (Error ''Attribute not found.'') \<and>
   [''a_position'' \<mapsto> fresh_attribute]
     (state_name (AttributeState_new ''a_position'' 7 None None None None)) = Some fresh_attribute \<and>
   AttributeState_use Pair (AttributeState_new ''a_position'' 7 None None None None)
     [''a_position'' \<mapsto> fresh_attribute]
     = Inr (fresh_attribute, AttributeState_new ''a_position'' 7 None None None None)"
proof -
  have absent: "[''a_position'' \<mapsto> fresh_attribute]
     (state_name (AttributeState_new ''a_color'' 7 None None None None)) = None"
    by (simp add: AttributeState_new_def)
  have present: "[''a_position'' \<mapsto> fresh_attribute]
     (state_name (AttributeState_new ''a_position'' 7 None None None None)) = Some fresh_attribute"
    by (simp add: AttributeState_new_def)
  from absent present
    AttributeState_use_error_iff [of Pair "AttributeState_new ''a_color'' 7 None None None None"
      "[''a_position'' \<mapsto> fresh_attribute]"]
    AttributeState_use_error_iff [of Pair "AttributeState_new ''a_position'' 7 None None None None"
      "[''a_position'' \<mapsto> fresh_attribute]"]
  show ?thesis by simp
qed


section \<open>Linking a program\<close>

text \<open>
  The constructor of \<open>Program\<close>, call by call: what it returns, what it appends
  to the trace and what it leaves in the native context.
\<close>

lemma fold_bindAttribLocation:
  "fold (\<lambda>(name, loc). bindAttribLocation p loc name) l gl
     = gl\<lparr>calls := calls gl @ map (\<lambda>(name, loc). GL_bindAttribLocation p loc name) l\<rparr>"
  by (induction l arbitrary: gl) (auto simp: bindAttribLocation_def issue_def)

lemma Program_new_lost:
  "context_lost gl \<Longrightarrow>
   Program_new vs fs m gl = (Inl (UnsupportedOperationError None), issue GL_createProgram gl)"
  by (simp add: Program_new_def createProgram_def)

lemma Program_new_result:
  "\<not> context_lost gl \<Longrightarrow>
   fst (Program_new vs fs m gl) =
     (if fst (driver_link gl (next_handle gl))
      then Inr \<lparr>internal = next_handle gl, vertexShader = vs, fragmentShader = fs\<rparr>
      else Inl (ProgramLinkError (snd (driver_link gl (next_handle gl)))))"
  by (cases m)
    (simp_all add: Program_new_def createProgram_def attachShader_def linkProgram_def
      Program_get_linkStatus_def Program_get_infoLog_def getProgramParameter_LINK_STATUS_def
      getProgramInfoLog_def fold_bindAttribLocation issue_def Let_def)

lemma Program_new_calls:
  "\<not> context_lost gl \<Longrightarrow>
   calls (snd (Program_new vs fs m gl)) =
     calls gl @
     [GL_createProgram, GL_attachShader (next_handle gl) (shader_internal vs),
      GL_attachShader (next_handle gl) (shader_internal fs)] @
     bind_calls (next_handle gl) m @
     [GL_linkProgram (next_handle gl), GL_getProgramParameter (next_handle gl) LINK_STATUS] @
     (if fst (driver_link gl (next_handle gl)) then [] else [GL_getProgramInfoLog (next_handle gl)])"
  by (cases m)
    (simp_all add: Program_new_def createProgram_def attachShader_def linkProgram_def
      Program_get_linkStatus_def Program_get_infoLog_def getProgramParameter_LINK_STATUS_def
      getProgramInfoLog_def fold_bindAttribLocation issue_def Let_def bind_calls_def)

lemma Program_new_native:
  "\<not> context_lost gl \<Longrightarrow>
   link_status (snd (Program_new vs fs m gl)) (next_handle gl) = fst (driver_link gl (next_handle gl)) \<and>
   program_info_log (snd (Program_new vs fs m gl)) (next_handle gl) = snd (driver_link gl (next_handle gl)) \<and>
   deleted_programs (snd (Program_new vs fs m gl)) = deleted_programs gl"
  by (cases m)
    (simp_all add: Program_new_def createProgram_def attachShader_def linkProgram_def
      Program_get_linkStatus_def Program_get_infoLog_def getProgramParameter_LINK_STATUS_def
      getProgramInfoLog_def fold_bindAttribLocation issue_def Let_def)

lemma linkProgram_not_bound: "GL_linkProgram q \<notin> set (bind_calls p m)"
  by (auto simp: bind_calls_def split: option.splits)

lemma count_bind_calls: "count_list (bind_calls p m) (GL_linkProgram q) = 0"
  by (simp add: linkProgram_not_bound)

lemma Program_new_links_once:
  "\<not> context_lost gl \<Longrightarrow>
   count_list (new_calls gl (snd (Program_new vs fs m gl))) (GL_linkProgram q)
     = (if q = next_handle gl then 1 else 0)"
  by (simp add: new_calls_def Program_new_calls count_bind_calls)

lemma Program_new_after_link:
  "\<not> context_lost gl \<Longrightarrow>
   calls_after (GL_linkProgram (next_handle gl)) (new_calls gl (snd (Program_new vs fs m gl)))
     = GL_getProgramParameter (next_handle gl) LINK_STATUS #
       (if fst (driver_link gl (next_handle gl)) then [] else [GL_getProgramInfoLog (next_handle gl)])"
proof -
  assume live: "\<not> context_lost gl"
  have skip: "dropWhile (\<lambda>x. x \<noteq> GL_linkProgram (next_handle gl)) (bind_calls (next_handle gl) m @ rest)
      = dropWhile (\<lambda>x. x \<noteq> GL_linkProgram (next_handle gl)) rest" for rest
    by (rule dropWhile_append2) (use linkProgram_not_bound in auto)
  show ?thesis
    by (simp add: calls_after_def new_calls_def Program_new_calls [OF live] skip)
qed

text \<open>
  C3. With a program handle \<open>p\<close> from \<open>createProgram\<close>, the constructor calls
  \<open>linkProgram(p)\<close> exactly once; it throws a \<open>ProgramLinkError\<close> carrying the
  info log of the driver if and only if the link status of \<open>p\<close> is then false,
  and returns the program if and only if it is true. Without a handle it throws
  an \<open>UnsupportedOperationError\<close> and links nothing, so in every case a
  \<open>ProgramLinkError\<close> is thrown exactly when a program was linked once and its
  link status is false.
\<close>

theorem Program_new_link_error_iff:
  "case Program_new vs fs m gl of (r, gl') \<Rightarrow>
     (\<not> context_lost gl \<longrightarrow>
        count_list (new_calls gl gl') (GL_linkProgram (next_handle gl)) = 1 \<and>
        (r = Inl (ProgramLinkError (program_info_log gl' (next_handle gl)))
           \<longleftrightarrow> \<not> link_status gl' (next_handle gl)) \<and>
        (r = Inr \<lparr>internal = next_handle gl, vertexShader = vs, fragmentShader = fs\<rparr>
           \<longleftrightarrow> link_status gl' (next_handle gl)) \<and>
        link_status gl' (next_handle gl) = fst (driver_link gl (next_handle gl)) \<and>
        program_info_log gl' (next_handle gl) = snd (driver_link gl (next_handle gl))) \<and>
     (context_lost gl \<longrightarrow>
        r = Inl (UnsupportedOperationError None) \<and> new_calls gl gl' = [GL_createProgram]) \<and>
     ((\<exists>infoLog. r = Inl (ProgramLinkError infoLog)) \<longleftrightarrow>
        (\<exists>p. count_list (new_calls gl gl') (GL_linkProgram p) = 1 \<and> \<not> link_status gl' p))"
proof (cases "context_lost gl")
  case True
  then show ?thesis
    by (simp add: Program_new_lost new_calls_issue)
next
  case False
  obtain r gl' where run: "Program_new vs fs m gl = (r, gl')"
    by (cases "Program_new vs fs m gl")
  have r: "r = (if fst (driver_link gl (next_handle gl))
      then Inr \<lparr>internal = next_handle gl, vertexShader = vs, fragmentShader = fs\<rparr>
      else Inl (ProgramLinkError (snd (driver_link gl (next_handle gl)))))"
    using Program_new_result [OF False, of vs fs m] run by simp
  have once: "count_list (new_calls gl gl') (GL_linkProgram q) = (if q = next_handle gl then 1 else 0)" for q
    using Program_new_links_once [OF False, of vs fs m q] run by simp
  have native: "link_status gl' (next_handle gl) = fst (driver_link gl (next_handle gl))"
    "program_info_log gl' (next_handle gl) = snd (driver_link gl (next_handle gl))"
    using Program_new_native [OF False, of vs fs m] run by simp_all
  have "(\<exists>p. count_list (new_calls gl gl') (GL_linkProgram p) = 1 \<and> \<not> link_status gl' p)
      \<longleftrightarrow> \<not> link_status gl' (next_handle gl)"
    by (auto simp: once split: if_splits)
  with False run r once native show ?thesis
    by auto
qed

text \<open>
  C3 on a driver that refuses to link, on one that links, and on a lost context.
\<close>

theorem Program_new_link_error_iff_witness:
  "\<not> context_lost (fresh_gl\<lparr>driver_link := \<lambda>p. (False, Some ''varying not written'')\<rparr>) \<and>
   fst (Program_new vertex_shader fragment_shader None
          (fresh_gl\<lparr>driver_link := \<lambda>p. (False, Some ''varying not written'')\<rparr>))
     = Inl (ProgramLinkError (Some ''varying not written'')) \<and>
   \<not> context_lost fresh_gl \<and>
   fst (Program_new vertex_shader fragment_shader None fresh_gl)
     = Inr \<lparr>internal = 1, vertexShader = vertex_shader, fragmentShader = fragment_shader\<rparr> \<and>
   context_lost (fresh_gl\<lparr>context_lost := True\<rparr>) \<and>
   fst (Program_new vertex_shader fragment_shader None (fresh_gl\<lparr>context_lost := True\<rparr>))
     = Inl (UnsupportedOperationError None)"
proof -
  let ?bad = "fresh_gl\<lparr>driver_link := \<lambda>p. (False, Some ''varying not written'')\<rparr>"
  have live: "\<not> context_lost ?bad" "\<not> context_lost fresh_gl"
    "context_lost (fresh_gl\<lparr>context_lost := True\<rparr>)"
    by (simp_all add: fresh_gl_def)
  have verdict:
    "driver_link ?bad (next_handle ?bad) = (False, Some ''varying not written'')"
    "driver_link fresh_gl (next_handle fresh_gl) = (True, Some [])"
    "next_handle fresh_gl = 1"
    by (simp_all add: fresh_gl_def)
  from live verdict
    Program_new_link_error_iff [where vs = vertex_shader and fs = fragment_shader and m = None and gl = ?bad]
    Program_new_link_error_iff [where vs = vertex_shader and fs = fragment_shader and m = None and gl = fresh_gl]
    Program_new_link_error_iff [where vs = vertex_shader and fs = fragment_shader and m = None
      and gl = "fresh_gl\<lparr>context_lost := True\<rparr>"]
  show ?thesis
    by (auto split: prod.splits)
qed

section \<open>Errors and the failing call\<close>

text \<open>
  The constructor of \<open>Shader\<close>, call by call.
\<close>

lemma Shader_new_lost:
  "context_lost gl \<Longrightarrow>
   Shader_new t src gl = (Inl (UnsupportedOperationError None), issue (GL_createShader t) gl)"
  by (simp add: Shader_new_def createShader_def)

lemma Shader_new_result:
  "\<not> context_lost gl \<Longrightarrow>
   fst (Shader_new t src gl) =
     (if fst (driver_compile gl src)
      then Inr \<lparr>shader_internal = next_handle gl, shader_type = t, shader_text = src\<rparr>
      else Inl (ShaderCompileError (snd (driver_compile gl src))))"
  by (simp add: Shader_new_def createShader_def shaderSource_def compileShader_def
      getShaderParameter_COMPILE_STATUS_def getShaderInfoLog_def issue_def Let_def)

lemma Shader_new_calls:
  "\<not> context_lost gl \<Longrightarrow>
   calls (snd (Shader_new t src gl)) =
     calls gl @
     [GL_createShader t, GL_shaderSource (next_handle gl) src, GL_compileShader (next_handle gl),
      GL_getShaderParameter (next_handle gl) COMPILE_STATUS] @
     (if fst (driver_compile gl src) then [] else [GL_getShaderInfoLog (next_handle gl)])"
  by (simp add: Shader_new_def createShader_def shaderSource_def compileShader_def
      getShaderParameter_COMPILE_STATUS_def getShaderInfoLog_def issue_def Let_def)

lemma Shader_new_keeps:
  "context_lost (snd (Shader_new t src gl)) = context_lost gl \<and>
   driver_compile (snd (Shader_new t src gl)) = driver_compile gl \<and>
   driver_link (snd (Shader_new t src gl)) = driver_link gl \<and>
   next_handle (snd (Shader_new t src gl))
     = (if context_lost gl then next_handle gl else Suc (next_handle gl))"
  by (simp add: Shader_new_def createShader_def shaderSource_def compileShader_def
      getShaderParameter_COMPILE_STATUS_def getShaderInfoLog_def issue_def Let_def)

lemma Program_fromSource_cases:
  "Program_fromSource v f gl =
     (case Shader_new VERTEX_SHADER v gl of
        (Inl e, gl1) \<Rightarrow> (Inl e, gl1)
      | (Inr vs, gl1) \<Rightarrow>
          (case Shader_new FRAGMENT_SHADER f gl1 of
             (Inl e, gl2) \<Rightarrow> (Inl e, gl2)
           | (Inr fs, gl2) \<Rightarrow> Program_new vs fs None gl2))"
  by (simp add: Program_fromSource_def)

lemma Context_new_failure:
  "fst (Context_new (FromCanvas cv) options) = Inl e \<Longrightarrow>
   count_list (snd (Context_new (FromCanvas cv) options)) (GL_getContext ''webgl2'' options) = 1 \<and>
   calls_after (GL_getContext ''webgl2'' options) (snd (Context_new (FromCanvas cv) options)) = []"
  by (simp add: calls_after_def split: option.splits)

lemma Program_new_failure:
  assumes "Program_new vs fs m gl = (Inl e, gl')"
  shows "(e = UnsupportedOperationError None \<and>
          count_list (new_calls gl gl') GL_createProgram = 1 \<and>
          calls_after GL_createProgram (new_calls gl gl') = []) \<or>
         ((\<exists>infoLog. e = ProgramLinkError infoLog) \<and>
          count_list (new_calls gl gl') (GL_linkProgram (next_handle gl)) = 1 \<and>
          list_all is_query (calls_after (GL_linkProgram (next_handle gl)) (new_calls gl gl')))"
proof (cases "context_lost gl")
  case True
  with assms show ?thesis
    by (auto simp: Program_new_lost new_calls_issue calls_after_def)
next
  case False
  from assms have r: "fst (Program_new vs fs m gl) = Inl e" and g: "snd (Program_new vs fs m gl) = gl'"
    by simp_all
  from r have bad: "\<not> fst (driver_link gl (next_handle gl))" and e: "e = ProgramLinkError (snd (driver_link gl (next_handle gl)))"
    by (auto simp: Program_new_result [OF False] split: if_splits)
  have "count_list (new_calls gl gl') (GL_linkProgram (next_handle gl)) = 1"
    using Program_new_links_once [OF False, of vs fs m "next_handle gl"] g by simp
  moreover have "list_all is_query (calls_after (GL_linkProgram (next_handle gl)) (new_calls gl gl'))"
    using Program_new_after_link [OF False, of vs fs m] g by simp
  ultimately show ?thesis using e by blast
qed

lemma Shader_new_failure:
  assumes "Shader_new t src gl = (Inl e, gl')"
  shows "(e = UnsupportedOperationError None \<and>
          count_list (new_calls gl gl') (GL_createShader t) = 1 \<and>
          calls_after (GL_createShader t) (new_calls gl gl') = []) \<or>
         ((\<exists>infoLog. e = ShaderCompileError infoLog) \<and>
          count_list (new_calls gl gl') (GL_compileShader (next_handle gl)) = 1 \<and>
          list_all is_query (calls_after (GL_compileShader (next_handle gl)) (new_calls gl gl')))"
proof (cases "context_lost gl")
  case True
  with assms show ?thesis
    by (auto simp: Shader_new_lost new_calls_issue calls_after_def)
next
  case False
  from assms have r: "fst (Shader_new t src gl) = Inl e" and g: "snd (Shader_new t src gl) = gl'"
    by simp_all
  from r have bad: "\<not> fst (driver_compile gl src)" and e: "e = ShaderCompileError (snd (driver_compile gl src))"
    by (auto simp: Shader_new_result [OF False] split: if_splits)
  have "new_calls gl gl' = [GL_createShader t, GL_shaderSource (next_handle gl) src,
      GL_compileShader (next_handle gl), GL_getShaderParameter (next_handle gl) COMPILE_STATUS,
      GL_getShaderInfoLog (next_handle gl)]"
    using Shader_new_calls [OF False, of t src] g bad by (simp add: new_calls_def)
  then show ?thesis using e by (simp add: calls_after_def)
qed

text \<open>
  C7. Every error is thrown by the operation that issued the failing native call:
  that call (\<open>getContext\<close>, \<open>createProgram\<close>, \<open>createShader\<close>, \<open>linkProgram\<close>,
  \<open>compileShader\<close>) occurs exactly once among the calls of the operation, so it is
  not reissued; nothing follows a failed acquisition, and only the queries for
  the status and the info log follow a failed link or compilation, so nothing is
  done to recover. \<open>Program.fromSource\<close> passes the error of a constructor on
  as it is, with the native context as that constructor left it.
\<close>

theorem errors_thrown_at_failing_call:
  "(\<forall>e. fst (Context_new (FromCanvas cv) options) = Inl e \<longrightarrow>
      count_list (snd (Context_new (FromCanvas cv) options)) (GL_getContext ''webgl2'' options) = 1 \<and>
      calls_after (GL_getContext ''webgl2'' options) (snd (Context_new (FromCanvas cv) options)) = []) \<and>
   (\<forall>e gl'. Program_new vs fs m gl = (Inl e, gl') \<longrightarrow>
      (e = UnsupportedOperationError None \<and>
       count_list (new_calls gl gl') GL_createProgram = 1 \<and>
       calls_after GL_createProgram (new_calls gl gl') = []) \<or>
      ((\<exists>infoLog. e = ProgramLinkError infoLog) \<and>
       count_list (new_calls gl gl') (GL_linkProgram (next_handle gl)) = 1 \<and>
       list_all is_query (calls_after (GL_linkProgram (next_handle gl)) (new_calls gl gl')))) \<and>
   (\<forall>e gl'. Shader_new t src gl = (Inl e, gl') \<longrightarrow>
      (e = UnsupportedOperationError None \<and>
       count_list (new_calls gl gl') (GL_createShader t) = 1 \<and>
       calls_after (GL_createShader t) (new_calls gl gl') = []) \<or>
      ((\<exists>infoLog. e = ShaderCompileError infoLog) \<and>
       count_list (new_calls gl gl') (GL_compileShader (next_handle gl)) = 1 \<and>
       list_all is_query (calls_after (GL_compileShader (next_handle gl)) (new_calls gl gl')))) \<and>
   (\<forall>e gl1. Shader_new VERTEX_SHADER v gl = (Inl e, gl1) \<longrightarrow>
      Program_fromSource v f gl = (Inl e, gl1)) \<and>
   (\<forall>s1 gl1 e gl2.
      Shader_new VERTEX_SHADER v gl = (Inr s1, gl1) \<and>
      Shader_new FRAGMENT_SHADER f gl1 = (Inl e, gl2) \<longrightarrow>
      Program_fromSource v f gl = (Inl e, gl2)) \<and>
   (\<forall>s1 gl1 s2 gl2.
      Shader_new VERTEX_SHADER v gl = (Inr s1, gl1) \<and>
      Shader_new FRAGMENT_SHADER f gl1 = (Inr s2, gl2) \<longrightarrow>
      Program_fromSource v f gl = Program_new s1 s2 None gl2)"
proof (intro conjI allI impI)
  fix e
  assume "fst (Context_new (FromCanvas cv) options) = Inl e"
  from Context_new_failure [OF this]
  show "count_list (snd (Context_new (FromCanvas cv) options)) (GL_getContext ''webgl2'' options) = 1"
    and "calls_after (GL_getContext ''webgl2'' options) (snd (Context_new (FromCanvas cv) options)) = []"
    by simp_all
next
  fix e gl'
  assume "Program_new vs fs m gl = (Inl e, gl')"
  then show "(e = UnsupportedOperationError None \<and>
       count_list (new_calls gl gl') GL_createProgram = 1 \<and>
       calls_after GL_createProgram (new_calls gl gl') = []) \<or>
      ((\<exists>infoLog. e = ProgramLinkError infoLog) \<and>
       count_list (new_calls gl gl') (GL_linkProgram (next_handle gl)) = 1 \<and>
       list_all is_query (calls_after (GL_linkProgram (next_handle gl)) (new_calls gl gl')))"
    by (rule Program_new_failure)
next
  fix e gl'
  assume "Shader_new t src gl = (Inl e, gl')"
  then show "(e = UnsupportedOperationError None \<and>
       count_list (new_calls gl gl') (GL_createShader t) = 1 \<and>
       calls_after (GL_createShader t) (new_calls gl gl') = []) \<or>
      ((\<exists>infoLog. e = ShaderCompileError infoLog) \<and>
       count_list (new_calls gl gl') (GL_compileShader (next_handle gl)) = 1 \<and>
       list_all is_query (calls_after (GL_compileShader (next_handle gl)) (new_calls gl gl')))"
    by (rule Shader_new_failure)
next
  fix e gl1
  assume "Shader_new VERTEX_SHADER v gl = (Inl e, gl1)"
  then show "Program_fromSource v f gl = (Inl e, gl1)"
    by (simp add: Program_fromSource_cases)
next
  fix s1 gl1 e gl2
  assume "Shader_new VERTEX_SHADER v gl = (Inr s1, gl1) \<and>
      Shader_new FRAGMENT_SHADER f gl1 = (Inl e, gl2)"
  then show "Program_fromSource v f gl = (Inl e, gl2)"
    by (simp add: Program_fromSource_cases)
next
  fix s1 gl1 s2 gl2
  assume "Shader_new VERTEX_SHADER v gl = (Inr s1, gl1) \<and>
      Shader_new FRAGMENT_SHADER f gl1 = (Inr s2, gl2)"
  then show "Program_fromSource v f gl = Program_new s1 s2 None gl2"
    by (simp add: Program_fromSource_cases)
qed

text \<open>
  C7 on a canvas without WebGL2, a driver that refuses to link, and an empty
  shader source in either place.
\<close>

theorem errors_thrown_at_failing_call_witness:
  "fst (Context_new (FromCanvas headless_canvas) None)
     = Inl (UnsupportedOperationError (Some ''The environment does not support WebGL2.'')) \<and>
   count_list (snd (Context_new (FromCanvas headless_canvas) None)) (GL_getContext ''webgl2'' None) = 1 \<and>
   Program_new vertex_shader fragment_shader None
       (fresh_gl\<lparr>driver_link := \<lambda>p. (False, Some ''varying not written'')\<rparr>)
     = (Inl (ProgramLinkError (Some ''varying not written'')),
        snd (Program_new vertex_shader fragment_shader None
               (fresh_gl\<lparr>driver_link := \<lambda>p. (False, Some ''varying not written'')\<rparr>))) \<and>
   count_list
     (new_calls (fresh_gl\<lparr>driver_link := \<lambda>p. (False, Some ''varying not written'')\<rparr>)
        (snd (Program_new vertex_shader fragment_shader None
                (fresh_gl\<lparr>driver_link := \<lambda>p. (False, Some ''varying not written'')\<rparr>))))
     (GL_linkProgram 1) = 1 \<and>
   Shader_new VERTEX_SHADER [] fresh_gl
     = (Inl (ShaderCompileError (Some ''ERROR: no main'')), snd (Shader_new VERTEX_SHADER [] fresh_gl)) \<and>
   count_list (new_calls fresh_gl (snd (Shader_new VERTEX_SHADER [] fresh_gl))) (GL_compileShader 1) = 1 \<and>
   Program_fromSource [] ''void main() {}'' fresh_gl
     = (Inl (ShaderCompileError (Some ''ERROR: no main'')), snd (Shader_new VERTEX_SHADER [] fresh_gl)) \<and>
   Program_fromSource ''void main() {}'' [] fresh_gl
     = (Inl (ShaderCompileError (Some ''ERROR: no main'')),
        snd (Shader_new FRAGMENT_SHADER []
               (snd (Shader_new VERTEX_SHADER ''void main() {}'' fresh_gl)))) \<and>
   Program_fromSource ''void main() {}'' ''void main() {}'' fresh_gl
     = Program_new
         \<lparr>shader_internal = 1, shader_type = VERTEX_SHADER, shader_text = ''void main() {}''\<rparr>
         \<lparr>shader_internal = 2, shader_type = FRAGMENT_SHADER, shader_text = ''void main() {}''\<rparr>
         None
         (snd (Shader_new FRAGMENT_SHADER ''void main() {}''
                 (snd (Shader_new VERTEX_SHADER ''void main() {}'' fresh_gl))))"
proof -
  let ?bad = "fresh_gl\<lparr>driver_link := \<lambda>p. (False, Some ''varying not written'')\<rparr>"
  let ?src = "''void main() {}''"
  let ?gl1 = "snd (Shader_new VERTEX_SHADER ?src fresh_gl)"
  have canvas: "fst (Context_new (FromCanvas headless_canvas) None)
      = Inl (UnsupportedOperationError (Some ''The environment does not support WebGL2.''))"
    by (simp add: headless_canvas_def)
  have live: "\<not> context_lost ?bad" "\<not> context_lost fresh_gl" "\<not> context_lost ?gl1"
    by (simp_all add: Shader_new_keeps fresh_gl_def)
  have handles: "next_handle ?bad = 1" "next_handle fresh_gl = 1" "next_handle ?gl1 = 2"
    by (simp_all add: Shader_new_keeps fresh_gl_def)
  have link: "fst (Program_new vertex_shader fragment_shader None ?bad)
      = Inl (ProgramLinkError (Some ''varying not written''))"
    by (simp add: Program_new_result [OF live(1)])
  then have program: "Program_new vertex_shader fragment_shader None ?bad
      = (Inl (ProgramLinkError (Some ''varying not written'')),
         snd (Program_new vertex_shader fragment_shader None ?bad))"
    by (metis prod.collapse)
  have compile: "driver_compile fresh_gl [] = (False, Some ''ERROR: no main'')"
    "driver_compile fresh_gl ?src = (True, Some [])"
    "driver_compile ?gl1 [] = (False, Some ''ERROR: no main'')"
    "driver_compile ?gl1 ?src = (True, Some [])"
    by (simp_all add: Shader_new_keeps fresh_gl_def)
  have "fst (Shader_new VERTEX_SHADER [] fresh_gl) = Inl (ShaderCompileError (Some ''ERROR: no main''))"
    by (simp add: Shader_new_result [OF live(2)] compile)
  then have empty_vertex: "Shader_new VERTEX_SHADER [] fresh_gl
      = (Inl (ShaderCompileError (Some ''ERROR: no main'')), snd (Shader_new VERTEX_SHADER [] fresh_gl))"
    by (metis prod.collapse)
  have "fst (Shader_new VERTEX_SHADER ?src fresh_gl)
      = Inr \<lparr>shader_internal = 1, shader_type = VERTEX_SHADER, shader_text = ?src\<rparr>"
    by (simp add: Shader_new_result [OF live(2)] compile handles)
  then have good_vertex: "Shader_new VERTEX_SHADER ?src fresh_gl
      = (Inr \<lparr>shader_internal = 1, shader_type = VERTEX_SHADER, shader_text = ?src\<rparr>, ?gl1)"
    by (metis prod.collapse)
  have "fst (Shader_new FRAGMENT_SHADER [] ?gl1) = Inl (ShaderCompileError (Some ''ERROR: no main''))"
    by (simp add: Shader_new_result [OF live(3)] compile)
  then have empty_fragment: "Shader_new FRAGMENT_SHADER [] ?gl1
      = (Inl (ShaderCompileError (Some ''ERROR: no main'')), snd (Shader_new FRAGMENT_SHADER [] ?gl1))"
    by (metis prod.collapse)
  have "fst (Shader_new FRAGMENT_SHADER ?src ?gl1)
      = Inr \<lparr>shader_internal = 2, shader_type = FRAGMENT_SHADER, shader_text = ?src\<rparr>"
    by (simp add: Shader_new_result [OF live(3)] compile handles)
  then have good_fragment: "Shader_new FRAGMENT_SHADER ?src ?gl1
      = (Inr \<lparr>shader_internal = 2, shader_type = FRAGMENT_SHADER, shader_text = ?src\<rparr>,
         snd (Shader_new FRAGMENT_SHADER ?src ?gl1))"
    by (metis prod.collapse)
  note thrown = errors_thrown_at_failing_call
  note at_canvas = thrown [THEN conjunct1, rule_format]
  note at_program = thrown [THEN conjunct2, THEN conjunct1, rule_format]
  note at_shader = thrown [THEN conjunct2, THEN conjunct2, THEN conjunct1, rule_format]
  note at_first = thrown [THEN conjunct2, THEN conjunct2, THEN conjunct2, THEN conjunct1, rule_format]
  note at_second = thrown [THEN conjunct2, THEN conjunct2, THEN conjunct2, THEN conjunct2,
      THEN conjunct1, rule_format]
  note at_last = thrown [THEN conjunct2, THEN conjunct2, THEN conjunct2, THEN conjunct2,
      THEN conjunct2, rule_format]
  from at_canvas [OF canvas]
  have c1: "count_list (snd (Context_new (FromCanvas headless_canvas) None))
      (GL_getContext ''webgl2'' None) = 1"
    by simp
  from at_program [OF program] handles(1)
  have c2: "count_list (new_calls ?bad (snd (Program_new vertex_shader fragment_shader None ?bad)))
      (GL_linkProgram 1) = 1"
    by simp
  from at_shader [OF empty_vertex] handles(2)
  have c3: "count_list (new_calls fresh_gl (snd (Shader_new VERTEX_SHADER [] fresh_gl)))
      (GL_compileShader 1) = 1"
    by simp
  from at_first [OF empty_vertex]
  have c4: "Program_fromSource [] ?src fresh_gl
      = (Inl (ShaderCompileError (Some ''ERROR: no main'')), snd (Shader_new VERTEX_SHADER [] fresh_gl))"
    by simp
  from at_second [OF conjI [OF good_vertex empty_fragment]]
  have c5: "Program_fromSource ?src [] fresh_gl
      = (Inl (ShaderCompileError (Some ''ERROR: no main'')), snd (Shader_new FRAGMENT_SHADER [] ?gl1))"
    by simp
  from at_last [OF conjI [OF good_vertex good_fragment]]
  have c6: "Program_fromSource ?src ?src fresh_gl
      = Program_new
         \<lparr>shader_internal = 1, shader_type = VERTEX_SHADER, shader_text = ?src\<rparr>
         \<lparr>shader_internal = 2, shader_type = FRAGMENT_SHADER, shader_text = ?src\<rparr>
         None (snd (Shader_new FRAGMENT_SHADER ?src ?gl1))"
    by simp
  from canvas c1 program c2 empty_vertex c3 c4 c5 c6 show ?thesis
    by blast
qed

section \<open>Deleting a program\<close>

lemma releases_nothingI:
  "deleted_programs gl' = deleted_programs gl \<Longrightarrow> calls gl' = calls gl @ cs \<Longrightarrow>
   \<not> list_ex is_delete cs \<Longrightarrow> releases_nothing gl gl'"
  by (simp add: releases_nothing_def new_calls_def)

lemma releases_nothing_refl: "releases_nothing gl gl"
  by (simp add: releases_nothing_def new_calls_def)

lemma releases_nothing_trans:
  assumes "releases_nothing a b" and "releases_nothing b c"
  shows "releases_nothing a c"
proof -
  from assms(1) obtain xs where ab: "calls b = calls a @ xs" and xs: "\<not> list_ex is_delete xs"
    unfolding releases_nothing_def new_calls_def
    by (metis append_take_drop_id)
  from assms(2) obtain ys where bc: "calls c = calls b @ ys" and ys: "\<not> list_ex is_delete ys"
    unfolding releases_nothing_def new_calls_def
    by (metis append_take_drop_id)
  from assms have "deleted_programs c = deleted_programs a"
    by (simp add: releases_nothing_def)
  moreover from ab bc have "calls c = calls a @ (xs @ ys)" by simp
  moreover from xs ys have "\<not> list_ex is_delete (xs @ ys)" by simp
  ultimately show ?thesis by (rule releases_nothingI)
qed

lemma read_property_releases_nothing:
  "releases_nothing gl (snd (snd (read_property TEXTURE0 p (this, gl))))"
  by (cases p)
    (simp_all add: releases_nothing_def new_calls_def Context_get_drawingBufferColorSpace_def
      Context_get_unpackColorSpace_def Context_get_activeTexture_def Context_get_blendColor_def
      read_drawingBufferColorSpace_def read_unpackColorSpace_def getParameter_ACTIVE_TEXTURE_def
      getParameter_BLEND_COLOR_def issue_def split: option.splits)

lemma Context_setters_release_nothing:
  "releases_nothing gl (snd (Context_set_drawingBufferColorSpace s (this, gl)))"
  "releases_nothing gl (snd (Context_set_unpackColorSpace s (this, gl)))"
  "releases_nothing gl (snd (Context_set_activeTexture TEXTURE0 n (this, gl)))"
  "releases_nothing gl (snd (Context_set_blendColor c (this, gl)))"
  by (simp_all add: releases_nothing_def new_calls_def Context_set_drawingBufferColorSpace_def
      Context_set_unpackColorSpace_def Context_set_activeTexture_def Context_set_blendColor_def
      write_drawingBufferColorSpace_def write_unpackColorSpace_def activeTexture_def blendColor_def
      issue_def)

lemma Attribute_set_enabled_releases_nothing:
  "releases_nothing gl (snd (Attribute_set_enabled b a gl))"
  by (simp add: releases_nothing_def new_calls_def Attribute_set_enabled_def Let_def
      enableVertexAttribArray_def disableVertexAttribArray_def issue_def split: option.splits)

lemma bind_calls_no_delete: "\<not> list_ex is_delete (bind_calls p m)"
  by (auto simp: bind_calls_def list_ex_iff split: option.splits)

lemma Program_new_releases_nothing: "releases_nothing gl (snd (Program_new vs fs m gl))"
proof (cases "context_lost gl")
  case True
  then show ?thesis
    by (simp add: Program_new_lost releases_nothing_def new_calls_def issue_def)
next
  case False
  show ?thesis
    by (rule releases_nothingI [OF _ Program_new_calls [OF False]])
      (simp_all add: Program_new_native [OF False] bind_calls_no_delete)
qed

lemma Program_queries_release_nothing:
  "releases_nothing gl (snd (Program_get_linkStatus this gl))"
  "releases_nothing gl (snd (Program_get_infoLog this gl))"
  by (simp_all add: releases_nothing_def new_calls_def Program_get_linkStatus_def
      Program_get_infoLog_def getProgramParameter_LINK_STATUS_def getProgramInfoLog_def issue_def)

lemma perform_releases_nothing:
  "\<not> is_Program_delete opn \<Longrightarrow> releases_nothing gl (perform TEXTURE0 opn gl)"
  by (cases opn)
    (simp_all add: read_property_releases_nothing Context_setters_release_nothing
      Attribute_set_enabled_releases_nothing Program_new_releases_nothing
      Program_queries_release_nothing)

lemma fold_perform_releases_nothing:
  "\<forall>opn \<in> set opns. \<not> is_Program_delete opn \<Longrightarrow>
   releases_nothing gl (fold (perform TEXTURE0) opns gl)"
proof (induction opns arbitrary: gl)
  case Nil
  show ?case by (simp add: releases_nothing_refl)
next
  case (Cons opn opns)
  from Cons.prems have "releases_nothing gl (perform TEXTURE0 opn gl)"
    by (simp add: perform_releases_nothing)
  moreover from Cons have
    "releases_nothing (perform TEXTURE0 opn gl) (fold (perform TEXTURE0) opns (perform TEXTURE0 opn gl))"
    by simp
  ultimately show ?case
    by (simp add: releases_nothing_trans)
qed

text \<open>
  C6. \<open>delete()\<close> forwards exactly one call, \<open>deleteProgram\<close> of the handle of
  the wrapper, which is then among the deleted programs, and changes no field of
  the wrapper. No sequence of other operations of the wrappers calls a deletion
  or changes the set of deleted programs.
\<close>

theorem delete_only_releases:
  "(case Program_delete this gl of (this', gl') \<Rightarrow>
      this' = this \<and>
      new_calls gl gl' = [GL_deleteProgram (internal this)] \<and>
      deleted_programs gl' = insert (internal this) (deleted_programs gl)) \<and>
   ((\<forall>opn \<in> set opns. \<not> is_Program_delete opn) \<longrightarrow>
      releases_nothing gl (fold (perform TEXTURE0) opns gl))"
  by (simp add: Program_delete_def deleteProgram_def new_calls_def issue_def
      fold_perform_releases_nothing)

text \<open>
  C6 on a sequence of four operations and on a deletion.
\<close>

theorem delete_only_releases_witness:
  "releases_nothing fresh_gl
     (fold (perform 33984)
        [Op_Context_set_activeTexture 3 fresh_context,
         Op_Program_new vertex_shader fragment_shader None,
         Op_Attribute_set_enabled True fresh_attribute,
         Op_Program_get_infoLog \<lparr>internal = 1, vertexShader = vertex_shader,
           fragmentShader = fragment_shader\<rparr>] fresh_gl) \<and>
   new_calls fresh_gl
     (snd (Program_delete \<lparr>internal = 1, vertexShader = vertex_shader,
             fragmentShader = fragment_shader\<rparr> fresh_gl)) = [GL_deleteProgram 1] \<and>
   deleted_programs
     (snd (Program_delete \<lparr>internal = 1, vertexShader = vertex_shader,
             fragmentShader = fragment_shader\<rparr> fresh_gl)) = {1}"
proof -
  let ?opns = "[Op_Context_set_activeTexture 3 fresh_context,
                Op_Program_new vertex_shader fragment_shader None,
                Op_Attribute_set_enabled True fresh_attribute,
                Op_Program_get_infoLog \<lparr>internal = 1, vertexShader = vertex_shader,
                  fragmentShader = fragment_shader\<rparr>]"
  have harmless: "\<forall>opn \<in> set ?opns. \<not> is_Program_delete opn"
    by simp
  have empty: "deleted_programs fresh_gl = {}"
    by (simp add: fresh_gl_def)
  from harmless empty
    delete_only_releases [where opns = ?opns and gl = fresh_gl and ?TEXTURE0.0 = 33984
      and this = "\<lparr>internal = 1, vertexShader = vertex_shader, fragmentShader = fragment_shader\<rparr>"]
  show ?thesis
    by (simp split: prod.splits)
qed

section \<open>Lazily cached properties\<close>

text \<open>
  A read on an empty cache asks the native context once and answers what it
  holds; a read on a filled cache asks nothing. A read of one property leaves the
  cache and the native value of every other property as they were.
\<close>

lemmas getter_defs =
  Context_get_drawingBufferColorSpace_def Context_get_unpackColorSpace_def
  Context_get_activeTexture_def Context_get_blendColor_def
  read_drawingBufferColorSpace_def read_unpackColorSpace_def getParameter_ACTIVE_TEXTURE_def
  getParameter_BLEND_COLOR_def

lemma color_space_value_Undefined: "color_space_value v = Undefined \<longleftrightarrow> v = None"
  by (cases v) simp_all

lemma read_property_empty:
  "cached_value p w = None \<Longrightarrow>
   fst (read_property TEXTURE0 p w) = native_value TEXTURE0 p (snd w) \<and>
   snd (snd (read_property TEXTURE0 p w)) = issue (native_query p) (snd w) \<and>
   cached_value p (snd (read_property TEXTURE0 p w))
     = (if native_value TEXTURE0 p (snd w) = Undefined then None
        else Some (native_value TEXTURE0 p (snd w))) \<and>
   canvas (fst (snd (read_property TEXTURE0 p w))) = canvas (fst w)"
  by (cases w; cases p)
    (auto simp: getter_defs issue_def color_space_value_Undefined split: option.splits)

lemma read_property_cached:
  "cached_value p w = Some v \<Longrightarrow> read_property TEXTURE0 p w = (v, w)"
  by (cases w; cases p) (auto simp: getter_defs split: option.splits)

lemma read_property_other:
  "q \<noteq> p \<Longrightarrow> read_property TEXTURE0 q w = (u, w') \<Longrightarrow>
   cached_value p w' = cached_value p w \<and> queries p w' = queries p w"
  by (cases w; cases p; cases q) (auto simp: getter_defs queries_def issue_def split: option.splits)

lemma read_property_native:
  "native_value T p (snd (snd (read_property TEXTURE0 q w))) = native_value T p (snd w)"
  by (cases w; cases p; cases q) (auto simp: getter_defs issue_def split: option.splits)

lemma queries_issue:
  "queries p (this, issue c gl) = queries p (this, gl) + (if c = native_query p then 1 else 0)"
  by (simp add: queries_def issue_def)

lemma read_property_queries:
  "read_property TEXTURE0 p w = (v, w') \<Longrightarrow>
   queries p w' = queries p w + (if cached_value p w = None then 1 else 0)"
proof (cases "cached_value p w")
  case None
  assume run: "read_property TEXTURE0 p w = (v, w')"
  from read_property_empty [OF None, of TEXTURE0] run
  have "snd w' = issue (native_query p) (snd w)" by simp
  with None show ?thesis
    by (simp add: queries_def issue_def)
next
  case (Some u)
  assume "read_property TEXTURE0 p w = (v, w')"
  with read_property_cached [OF Some, of TEXTURE0] Some show ?thesis by simp
qed

lemma read_property_fills:
  "cached_value p w \<noteq> None \<or> native_value TEXTURE0 p (snd w) \<noteq> Undefined \<Longrightarrow>
   read_property TEXTURE0 p w = (v, w') \<Longrightarrow> cached_value p w' = Some v"
proof (cases "cached_value p w")
  case None
  assume "cached_value p w \<noteq> None \<or> native_value TEXTURE0 p (snd w) \<noteq> Undefined"
    and run: "read_property TEXTURE0 p w = (v, w')"
  with None have "native_value TEXTURE0 p (snd w) \<noteq> Undefined" by simp
  with read_property_empty [OF None, of TEXTURE0] run show ?thesis by simp
next
  case (Some u)
  assume "read_property TEXTURE0 p w = (v, w')"
  with read_property_cached [OF Some, of TEXTURE0] Some show ?thesis by simp
qed

lemma read_property_keeps_answerable:
  assumes "cached_value p w \<noteq> None \<or> native_value TEXTURE0 p (snd w) \<noteq> Undefined"
    and "read_property TEXTURE0 q w = (u, w1)"
  shows "cached_value p w1 \<noteq> None \<or> native_value TEXTURE0 p (snd w1) \<noteq> Undefined"
proof (cases "q = p")
  case True
  with assms read_property_fills [of p w TEXTURE0 u w1] show ?thesis by simp
next
  case False
  from read_property_native [of TEXTURE0 p TEXTURE0 q w] assms(2)
  have "native_value TEXTURE0 p (snd w1) = native_value TEXTURE0 p (snd w)" by simp
  with False assms read_property_other [of q p TEXTURE0 w u w1] show ?thesis by simp
qed

lemma read_properties_cached:
  "cached_value p w = Some v \<Longrightarrow> read_properties TEXTURE0 ps w = (vs, w') \<Longrightarrow>
   queries p w' = queries p w \<and> cached_value p w' = Some v \<and>
   length vs = length ps \<and> (\<forall>i < length ps. ps ! i = p \<longrightarrow> vs ! i = v)"
proof (induction ps arbitrary: w vs w')
  case Nil
  then show ?case by simp
next
  case (Cons q ps)
  obtain u w1 where first: "read_property TEXTURE0 q w = (u, w1)"
    by (cases "read_property TEXTURE0 q w")
  obtain us w2 where rest: "read_properties TEXTURE0 ps w1 = (us, w2)"
    by (cases "read_properties TEXTURE0 ps w1")
  from Cons.prems(2) first rest have vs: "vs = u # us" and w': "w' = w2"
    by simp_all
  have step: "cached_value p w1 = Some v \<and> queries p w1 = queries p w \<and> (q = p \<longrightarrow> u = v)"
  proof (cases "q = p")
    case True
    with Cons.prems(1) first show ?thesis
      using read_property_cached [of p w v TEXTURE0] by simp
  next
    case False
    with Cons.prems(1) first show ?thesis
      using read_property_other [of q p TEXTURE0 w u w1] by simp
  qed
  from step Cons.IH [OF _ rest] have tail:
    "queries p w2 = queries p w1" "cached_value p w2 = Some v" "length us = length ps"
    "\<forall>i < length ps. ps ! i = p \<longrightarrow> us ! i = v"
    by simp_all
  have "\<forall>i < length (q # ps). (q # ps) ! i = p \<longrightarrow> (u # us) ! i = v"
  proof (intro allI impI)
    fix i
    assume "i < length (q # ps)" and "(q # ps) ! i = p"
    with step tail(4) show "(u # us) ! i = v"
      by (cases i) simp_all
  qed
  with step tail vs w' show ?case by simp
qed

lemma read_properties_queries:
  "cached_value p w \<noteq> None \<or> native_value TEXTURE0 p (snd w) \<noteq> Undefined \<Longrightarrow>
   read_properties TEXTURE0 ps w = (vs, w') \<Longrightarrow>
   queries p w' = queries p w + (if cached_value p w = None \<and> p \<in> set ps then 1 else 0)"
proof (induction ps arbitrary: w vs w')
  case Nil
  then show ?case by simp
next
  case (Cons q ps)
  obtain u w1 where first: "read_property TEXTURE0 q w = (u, w1)"
    by (cases "read_property TEXTURE0 q w")
  obtain us w2 where rest: "read_properties TEXTURE0 ps w1 = (us, w2)"
    by (cases "read_properties TEXTURE0 ps w1")
  from Cons.prems(2) first rest have w': "w' = w2"
    by simp
  show ?case
  proof (cases "q = p")
    case True
    from Cons.prems(1) first True have filled: "cached_value p w1 = Some u"
      using read_property_fills [of p w TEXTURE0 u w1] by simp
    from read_properties_cached [OF filled rest] have "queries p w2 = queries p w1"
      by simp
    with first True w' show ?thesis
      using read_property_queries [of TEXTURE0 p w u w1] by simp
  next
    case False
    with first have same: "cached_value p w1 = cached_value p w" "queries p w1 = queries p w"
      using read_property_other [of q p TEXTURE0 w u w1] by simp_all
    from read_property_keeps_answerable [OF Cons.prems(1) first]
    have "cached_value p w1 \<noteq> None \<or> native_value TEXTURE0 p (snd w1) \<noteq> Undefined" .
    from Cons.IH [OF this rest] same False w' show ?thesis by simp
  qed
qed

lemma read_properties_same_value:
  "cached_value p w \<noteq> None \<or> native_value TEXTURE0 p (snd w) \<noteq> Undefined \<Longrightarrow>
   read_properties TEXTURE0 ps w = (vs, w') \<Longrightarrow> i < j \<Longrightarrow> j < length ps \<Longrightarrow>
   ps ! i = p \<Longrightarrow> ps ! j = p \<Longrightarrow> vs ! j = vs ! i"
proof (induction ps arbitrary: w vs w' i j)
  case Nil
  then show ?case by simp
next
  case (Cons q ps)
  obtain u w1 where first: "read_property TEXTURE0 q w = (u, w1)"
    by (cases "read_property TEXTURE0 q w")
  obtain us w2 where rest: "read_properties TEXTURE0 ps w1 = (us, w2)"
    by (cases "read_properties TEXTURE0 ps w1")
  from Cons.prems(2) first rest have vs: "vs = u # us"
    by simp
  from Cons.prems(3) obtain j' where j: "j = Suc j'"
    by (cases j) simp_all
  show ?case
  proof (cases i)
    case 0
    with Cons.prems(5) have "q = p" by simp
    with Cons.prems(1) first have "cached_value p w1 = Some u"
      using read_property_fills [of p w TEXTURE0 u w1] by simp
    from read_properties_cached [OF this rest] Cons.prems(4,6) j have "us ! j' = u"
      by simp
    with vs j 0 show ?thesis by simp
  next
    case (Suc i')
    from read_property_keeps_answerable [OF Cons.prems(1) first]
    have "cached_value p w1 \<noteq> None \<or> native_value TEXTURE0 p (snd w1) \<noteq> Undefined" .
    from Cons.IH [OF this rest, of i' j'] Cons.prems j Suc have "us ! j' = us ! i'"
      by simp
    with vs j Suc show ?thesis by simp
  qed
qed

lemma read_properties_uncached:
  "cached_value p w = None \<Longrightarrow> native_value TEXTURE0 p (snd w) = Undefined \<Longrightarrow>
   read_properties TEXTURE0 ps w = (vs, w') \<Longrightarrow>
   queries p w' = queries p w + count_list ps p"
proof (induction ps arbitrary: w vs w')
  case Nil
  then show ?case by simp
next
  case (Cons q ps)
  obtain u w1 where first: "read_property TEXTURE0 q w = (u, w1)"
    by (cases "read_property TEXTURE0 q w")
  obtain us w2 where rest: "read_properties TEXTURE0 ps w1 = (us, w2)"
    by (cases "read_properties TEXTURE0 ps w1")
  from Cons.prems(3) first rest have w': "w' = w2"
    by simp
  from read_property_native [of TEXTURE0 p TEXTURE0 q w] first Cons.prems(2)
  have native: "native_value TEXTURE0 p (snd w1) = Undefined" by simp
  show ?case
  proof (cases "q = p")
    case True
    from read_property_empty [OF Cons.prems(1), of TEXTURE0] first True Cons.prems(2)
    have empty: "cached_value p w1 = None" by simp
    from first True Cons.prems(1) have "queries p w1 = queries p w + 1"
      using read_property_queries [of TEXTURE0 p w u w1] by simp
    with Cons.IH [OF empty native rest] True w' show ?thesis by simp
  next
    case False
    with first Cons.prems(1) have "cached_value p w1 = None" "queries p w1 = queries p w"
      using read_property_other [of q p TEXTURE0 w u w1] by simp_all
    with Cons.IH [OF _ native rest] False w' show ?thesis by simp
  qed
qed

text \<open>
  C5, as amended. For a lazily cached property of \<open>Context\<close>
  (\<open>drawingBufferColorSpace\<close>, \<open>unpackColorSpace\<close>, \<open>activeTexture\<close>, \<open>blendColor\<close>):
  a read on an empty cache issues the native query of the property, exactly that
  call, answers the native value and keeps it in the cache unless it is
  \<open>undefined\<close>; a read on a filled cache answers the cached value and leaves the
  wrapper and the native context, with its trace, as they were. So over any
  sequence of reads of a property that is cached already or whose native value is
  not \<open>undefined\<close>, the native query is issued at most once (once exactly if the
  cache was empty and the property is read) and all reads of the property answer
  the same value. A property whose native value is \<open>undefined\<close> is never cached:
  each read of it issues the native query again.
\<close>

theorem lazy_getter_queries_once:
  "(cached_value p w = None \<longrightarrow>
      (case read_property TEXTURE0 p w of (v, w') \<Rightarrow>
         v = native_value TEXTURE0 p (snd w) \<and>
         snd w' = issue (native_query p) (snd w) \<and>
         cached_value p w' = (if v = Undefined then None else Some v) \<and>
         canvas (fst w') = canvas (fst w) \<and>
         (\<forall>q. q \<noteq> p \<longrightarrow> cached_value q w' = cached_value q w))) \<and>
   (\<forall>v. cached_value p w = Some v \<longrightarrow> read_property TEXTURE0 p w = (v, w)) \<and>
   (\<forall>vs w'. read_properties TEXTURE0 ps w = (vs, w') \<and>
        (cached_value p w \<noteq> None \<or> native_value TEXTURE0 p (snd w) \<noteq> Undefined) \<longrightarrow>
      queries p w' = queries p w + (if cached_value p w = None \<and> p \<in> set ps then 1 else 0) \<and>
      queries p w' \<le> queries p w + 1 \<and>
      (\<forall>i j. i < j \<and> j < length ps \<and> ps ! i = p \<and> ps ! j = p \<longrightarrow> vs ! j = vs ! i)) \<and>
   (\<forall>vs w'. read_properties TEXTURE0 ps w = (vs, w') \<and>
        cached_value p w = None \<and> native_value TEXTURE0 p (snd w) = Undefined \<longrightarrow>
      queries p w' = queries p w + count_list ps p)"
proof (intro conjI allI impI)
  assume empty: "cached_value p w = None"
  obtain v w' where run: "read_property TEXTURE0 p w = (v, w')"
    by (cases "read_property TEXTURE0 p w")
  have others: "\<forall>q. q \<noteq> p \<longrightarrow> cached_value q w' = cached_value q w"
  proof (intro allI impI)
    fix q :: property
    assume "q \<noteq> p"
    then have "p \<noteq> q" by simp
    from read_property_other [OF this run] show "cached_value q w' = cached_value q w"
      by simp
  qed
  from read_property_empty [OF empty, of TEXTURE0] run others
  show "case read_property TEXTURE0 p w of (v, w') \<Rightarrow>
         v = native_value TEXTURE0 p (snd w) \<and>
         snd w' = issue (native_query p) (snd w) \<and>
         cached_value p w' = (if v = Undefined then None else Some v) \<and>
         canvas (fst w') = canvas (fst w) \<and>
         (\<forall>q. q \<noteq> p \<longrightarrow> cached_value q w' = cached_value q w)"
    by simp
next
  fix v
  assume "cached_value p w = Some v"
  then show "read_property TEXTURE0 p w = (v, w)"
    by (rule read_property_cached)
next
  fix vs w'
  assume "read_properties TEXTURE0 ps w = (vs, w') \<and>
      (cached_value p w \<noteq> None \<or> native_value TEXTURE0 p (snd w) \<noteq> Undefined)"
  then have run: "read_properties TEXTURE0 ps w = (vs, w')"
    and answerable: "cached_value p w \<noteq> None \<or> native_value TEXTURE0 p (snd w) \<noteq> Undefined"
    by simp_all
  from read_properties_queries [OF answerable run]
  show exact: "queries p w' = queries p w + (if cached_value p w = None \<and> p \<in> set ps then 1 else 0)" .
  then show "queries p w' \<le> queries p w + 1"
    by simp
  fix i j
  assume "i < j \<and> j < length ps \<and> ps ! i = p \<and> ps ! j = p"
  with answerable run show "vs ! j = vs ! i"
    using read_properties_same_value by blast
next
  fix vs w'
  assume "read_properties TEXTURE0 ps w = (vs, w') \<and>
      cached_value p w = None \<and> native_value TEXTURE0 p (snd w) = Undefined"
  then show "queries p w' = queries p w + count_list ps p"
    using read_properties_uncached by blast
qed

text \<open>
  C5 as stated fails on a native context that answers \<open>undefined\<close> for
  \<open>unpackColorSpace\<close>: the cache stays \<open>undefined\<close>, which is also its mark for
  "not read yet", and two reads issue two native reads.
\<close>

theorem undefined_color_space_counterexample:
  "cached_value UnpackColorSpace (fresh_context, legacy_gl) = None \<and>
   fst (read_properties 33984 [UnpackColorSpace, UnpackColorSpace] (fresh_context, legacy_gl))
     = [Undefined, Undefined] \<and>
   new_calls legacy_gl
     (snd (snd (read_properties 33984 [UnpackColorSpace, UnpackColorSpace] (fresh_context, legacy_gl))))
     = [GL_read_unpackColorSpace, GL_read_unpackColorSpace]"
  by (simp add: Context_get_unpackColorSpace_def read_unpackColorSpace_def issue_def new_calls_def
      fresh_context_def ApiInterface_new_def legacy_gl_def fresh_gl_def)

text \<open>
  The amended C5 on an empty cache, on a filled cache, on three reads of which
  two are of \<open>activeTexture\<close>, and on the context without \<open>unpackColorSpace\<close>.
\<close>

theorem lazy_getter_queries_once_witness:
  "cached_value ActiveTexture (fresh_context, fresh_gl) = None \<and>
   fst (read_property 33984 ActiveTexture (fresh_context, fresh_gl)) = NumberValue 0 \<and>
   new_calls fresh_gl (snd (snd (read_property 33984 ActiveTexture (fresh_context, fresh_gl))))
     = [GL_getParameter ACTIVE_TEXTURE] \<and>
   cached_value ActiveTexture (snd (read_property 33984 ActiveTexture (fresh_context, fresh_gl)))
     = Some (NumberValue 0) \<and>
   cached_value ActiveTexture (warm_context, fresh_gl) = Some (NumberValue 2) \<and>
   read_property 33984 ActiveTexture (warm_context, fresh_gl)
     = (NumberValue 2, (warm_context, fresh_gl)) \<and>
   queries ActiveTexture
     (snd (read_properties 33984 [ActiveTexture, BlendColor, ActiveTexture] (fresh_context, fresh_gl)))
     = 1 \<and>
   fst (read_properties 33984 [ActiveTexture, BlendColor, ActiveTexture] (fresh_context, fresh_gl)) ! 2
     = fst (read_properties 33984 [ActiveTexture, BlendColor, ActiveTexture] (fresh_context, fresh_gl)) ! 0 \<and>
   cached_value UnpackColorSpace (fresh_context, legacy_gl) = None \<and>
   native_value 33984 UnpackColorSpace legacy_gl = Undefined \<and>
   queries UnpackColorSpace
     (snd (read_properties 33984 [UnpackColorSpace, ActiveTexture, UnpackColorSpace]
             (fresh_context, legacy_gl)))
     = 2"
proof -
  let ?w = "(fresh_context, fresh_gl)"
  let ?ps = "[ActiveTexture, BlendColor, ActiveTexture]"
  let ?qs = "[UnpackColorSpace, ActiveTexture, UnpackColorSpace]"
  note once = lazy_getter_queries_once
  note on_empty = once [THEN conjunct1, rule_format]
  note on_filled = once [THEN conjunct2, THEN conjunct1, rule_format]
  note on_reads = once [THEN conjunct2, THEN conjunct2, THEN conjunct1, rule_format]
  note on_undefined = once [THEN conjunct2, THEN conjunct2, THEN conjunct2, rule_format]
  have empty: "cached_value ActiveTexture ?w = None"
    by (simp add: fresh_context_def ApiInterface_new_def)
  have native: "native_value 33984 ActiveTexture (snd ?w) = NumberValue 0"
    by (simp add: fresh_gl_def)
  have none_yet: "queries ActiveTexture ?w = 0"
    by (simp add: queries_def fresh_gl_def)
  from on_empty [OF empty, where ?TEXTURE0.0 = 33984] native
  have first:
    "fst (read_property 33984 ActiveTexture ?w) = NumberValue 0"
    "new_calls fresh_gl (snd (snd (read_property 33984 ActiveTexture ?w))) = [GL_getParameter ACTIVE_TEXTURE]"
    "cached_value ActiveTexture (snd (read_property 33984 ActiveTexture ?w)) = Some (NumberValue 0)"
    by (simp_all add: split_beta new_calls_issue)
  have filled: "cached_value ActiveTexture (warm_context, fresh_gl) = Some (NumberValue 2)"
    by (simp add: warm_context_def)
  note second = on_filled [OF filled, where ?TEXTURE0.0 = 33984]
  have run: "read_properties 33984 ?ps ?w
      = (fst (read_properties 33984 ?ps ?w), snd (read_properties 33984 ?ps ?w))"
    by simp
  have answerable: "cached_value ActiveTexture ?w \<noteq> None
      \<or> native_value 33984 ActiveTexture (snd ?w) \<noteq> Undefined"
    using native by simp
  from on_reads [OF conjI [OF run answerable]] empty none_yet
  have count: "queries ActiveTexture (snd (read_properties 33984 ?ps ?w)) = 1"
    by simp
  have places: "(0::nat) < 2 \<and> 2 < length ?ps \<and> ?ps ! 0 = ActiveTexture \<and> ?ps ! 2 = ActiveTexture"
    by simp
  from on_reads [OF conjI [OF run answerable]] places
  have same: "fst (read_properties 33984 ?ps ?w) ! 2 = fst (read_properties 33984 ?ps ?w) ! 0"
    by blast
  have legacy: "cached_value UnpackColorSpace (fresh_context, legacy_gl) = None"
    "native_value 33984 UnpackColorSpace legacy_gl = Undefined"
    "queries UnpackColorSpace (fresh_context, legacy_gl) = 0"
    by (simp_all add: fresh_context_def ApiInterface_new_def legacy_gl_def queries_def fresh_gl_def)
  have rerun: "read_properties 33984 ?qs (fresh_context, legacy_gl)
      = (fst (read_properties 33984 ?qs (fresh_context, legacy_gl)),
         snd (read_properties 33984 ?qs (fresh_context, legacy_gl)))"
    by simp
  from on_undefined [OF conjI [OF rerun conjI [OF legacy(1)]]] legacy
  have twice: "queries UnpackColorSpace (snd (read_properties 33984 ?qs (fresh_context, legacy_gl))) = 2"
    by simp
  from empty first filled second count same legacy(1,2) twice show ?thesis
    by simp
qed


end
